theory Spec2Isabelle
  imports Complex_Main "HOL-Library.AList" "HOL-Library.Word"
begin


section \<open>Python values and conversions\<close>

text \<open>
  The migrator is Python. Its exceptions are values of \<open>py_error\<close>; a computation that
  may raise returns \<open>py_error + 'a\<close> with \<open>Inl\<close> for the exception.
  Python floats are exact rationals where nothing depends on their rounding; the conversion
  of interest rates, whose result does, is computed in binary64.
  A Python \<open>str\<close> is a \<open>string\<close> whose characters are single code points below 256.
\<close>

datatype py_error =
    ValueError | TypeError | KeyError | AttributeError | ZeroDivisionError
  | UnboundLocalError | OverflowError | DatabaseError

subsection \<open>\<open>str(int)\<close> and \<open>int(str)\<close>\<close>

definition digit_char :: "nat \<Rightarrow> char" where
  "digit_char n = char_of (48 + n)"

function str_of_nat :: "nat \<Rightarrow> string" where
  "str_of_nat n = (if n < 10 then [digit_char n] else str_of_nat (n div 10) @ [digit_char (n mod 10)])"
  by pat_completeness auto
termination
  by (relation "measure id") auto

declare str_of_nat.simps [simp del]

definition py_str_int :: "int \<Rightarrow> string" where
  "py_str_int i = (if i < 0 then CHR ''-'' # str_of_nat (nat (- i)) else str_of_nat (nat i))"

definition is_py_space :: "char \<Rightarrow> bool" where
  \<comment> \<open>the characters \<open>int()\<close> and \<open>str.strip()\<close> treat as white space, below 256\<close>
  "is_py_space c = (let n = (of_char c :: nat)
     in (9 \<le> n \<and> n \<le> 13) \<or> (28 \<le> n \<and> n \<le> 32) \<or> n = 133 \<or> n = 160)"

definition is_digit :: "char \<Rightarrow> bool" where
  "is_digit c = (48 \<le> (of_char c :: nat) \<and> (of_char c :: nat) \<le> 57)"

definition digit_val :: "char \<Rightarrow> nat" where
  "digit_val c = of_char c - 48"

definition py_strip :: "string \<Rightarrow> string" where
  "py_strip s = rev (dropWhile is_py_space (rev (dropWhile is_py_space s)))"

fun after_digit :: "nat \<Rightarrow> string \<Rightarrow> nat option" where
  "after_digit acc [] = Some acc"
| "after_digit acc (c # cs) =
     (if is_digit c then after_digit (10 * acc + digit_val c) cs
      else if c = CHR ''_'' then
        (case cs of
           [] \<Rightarrow> None
         | d # ds \<Rightarrow> if is_digit d then after_digit (10 * acc + digit_val d) ds else None)
      else None)"

definition py_digits :: "string \<Rightarrow> nat option" where
  \<comment> \<open>a decimal literal: digits, with single underscores allowed between digits\<close>
  "py_digits s = (case s of
       [] \<Rightarrow> None
     | c # cs \<Rightarrow> if is_digit c then after_digit (digit_val c) cs else None)"

definition py_int_of_str :: "string \<Rightarrow> py_error + int" where
  \<comment> \<open>\<open>int(s)\<close>: surrounding white space is dropped, one sign is accepted\<close>
  "py_int_of_str s =
     (let t = py_strip s;
          r = (case t of
                 [] \<Rightarrow> None
               | c # cs \<Rightarrow>
                   if c = CHR ''-'' then map_option (\<lambda>n. - int n) (py_digits cs)
                   else if c = CHR ''+'' then map_option int (py_digits cs)
                   else map_option int (py_digits t))
      in case r of None \<Rightarrow> Inl ValueError | Some i \<Rightarrow> Inr i)"

section \<open>Governorate of a national id (custom\_helper.get\_governorate\_from\_national\_id)\<close>

text \<open>The id reaches the function as SQL NULL, as text or as an integer.\<close>

datatype nid = NidNull | NidText string | NidNumber int

fun nid_truthy :: "nid \<Rightarrow> bool" where
  "nid_truthy NidNull = False"
| "nid_truthy (NidText s) = (s \<noteq> [])"
| "nid_truthy (NidNumber i) = (i \<noteq> 0)"

fun nid_str :: "nid \<Rightarrow> string" where
  "nid_str NidNull = ''None''"
| "nid_str (NidText s) = s"
| "nid_str (NidNumber i) = py_str_int i"

definition get_governorate_from_national_id :: "nid \<Rightarrow> int option" where
  "get_governorate_from_national_id national_id =
     (if \<not> nid_truthy national_id \<or> length (nid_str national_id) \<noteq> 14 then None
      else let gov_code = take 2 (drop 7 (nid_str national_id))
           in if gov_code = ''88'' then Some 1
              else (case py_int_of_str gov_code of
                      Inr i \<Rightarrow> Some i
                    | Inl e \<Rightarrow> None))"

section \<open>Calendar dates\<close>

text \<open>
  A \<open>datetime.date\<close>: the constructor and \<open>replace\<close> raise \<open>ValueError\<close> outside the
  years 1 to 9999 or when the day does not exist in the month. Times of day are not modelled.
\<close>

record date =
  year :: int
  month :: int
  day :: int

definition is_leap :: "int \<Rightarrow> bool" where
  "is_leap y = (y mod 4 = 0 \<and> (y mod 100 \<noteq> 0 \<or> y mod 400 = 0))"

definition days_in_month :: "int \<Rightarrow> int \<Rightarrow> int" where
  "days_in_month y m =
     (if m = 2 then (if is_leap y then 29 else 28)
      else if m = 4 \<or> m = 6 \<or> m = 9 \<or> m = 11 then 30 else 31)"

definition valid_date :: "date \<Rightarrow> bool" where
  "valid_date d = (1 \<le> year d \<and> year d \<le> 9999 \<and> 1 \<le> month d \<and> month d \<le> 12
                   \<and> 1 \<le> day d \<and> day d \<le> days_in_month (year d) (month d))"

definition mk_date :: "int \<Rightarrow> int \<Rightarrow> int \<Rightarrow> py_error + date" where
  "mk_date y m d =
     (let r = \<lparr>year = y, month = m, day = d\<rparr>
      in if valid_date r then Inr r else Inl ValueError)"

definition date_replace :: "date \<Rightarrow> int \<Rightarrow> int \<Rightarrow> py_error + date" where
  \<comment> \<open>\<open>d.replace(year=y, month=m)\<close>\<close>
  "date_replace d y m = mk_date y m (day d)"

definition minus_one_day :: "date \<Rightarrow> py_error + date" where
  \<comment> \<open>\<open>d - timedelta(days=1)\<close>\<close>
  "minus_one_day d =
     (if 1 < day d then Inr (d\<lparr>day := day d - 1\<rparr>)
      else if 1 < month d then
        Inr (d\<lparr>month := month d - 1, day := days_in_month (year d) (month d - 1)\<rparr>)
      else if 1 < year d then Inr \<lparr>year = year d - 1, month = 12, day = 31\<rparr>
      else Inl OverflowError)"

definition plus_one_day :: "date \<Rightarrow> py_error + date" where
  \<comment> \<open>\<open>d + timedelta(days=1)\<close>\<close>
  "plus_one_day d =
     (if day d < days_in_month (year d) (month d) then Inr (d\<lparr>day := day d + 1\<rparr>)
      else if month d < 12 then Inr (d\<lparr>month := month d + 1, day := 1\<rparr>)
      else if year d < 9999 then Inr \<lparr>year = year d + 1, month = 1, day = 1\<rparr>
      else Inl OverflowError)"

section \<open>Target tables\<close>

text \<open>
  Rows of \<open>loan_transactions\<close>, \<open>loan_repayment_schedules\<close> and \<open>loans\<close>, with the columns the
  two settlement engines read or write. A nullable column is an \<open>option\<close>. A table is the list
  of its rows; \<open>id\<close> is the primary key.
\<close>

record ltx =
  tx_id :: nat
  tx_loan_id :: "nat option"
  tx_repayment_schedule_id :: "nat option"
  tx_loan_transaction_type_id :: "int option"
  tx_amount :: "rat option"
  tx_debit :: "rat option"
  tx_credit :: "rat option"
  tx_principal_repaid_derived :: "rat option"
  tx_interest_repaid_derived :: "rat option"
  tx_fees_repaid_derived :: "rat option"
  tx_penalties_repaid_derived :: "rat option"
  tx_principal_balance :: "rat option"
  tx_interest_balance :: "rat option"
  tx_fees_balance :: "rat option"
  tx_penalties_balance :: "rat option"
  tx_total_balance :: "rat option"
  tx_created_at :: "date option"
  tx_updated_at :: "date option"
  tx_submitted_on :: "date option"
  tx_branch_id :: "nat option"
  tx_loan_officer_id :: "nat option"
  tx_description :: "string option"

definition or_zero :: "rat option \<Rightarrow> rat" where
  \<comment> \<open>\<open>float(x or 0)\<close>\<close>
  "or_zero x = (case x of None \<Rightarrow> 0 | Some v \<Rightarrow> v)"

section \<open>Transaction settlement (custom\_helper.settle\_transactions)\<close>

record running =
  principal_balance :: rat
  interest_balance :: rat
  penalties_balance :: rat

definition initial_balances :: running where
  "initial_balances = \<lparr>principal_balance = 0, interest_balance = 0, penalties_balance = 0\<rparr>"

definition update_balances :: "running \<Rightarrow> ltx \<Rightarrow> running" where
  \<comment> \<open>the \<open>if\<close>/\<open>elif\<close> chain on \<open>tx_type\<close> in the loop body\<close>
  "update_balances b tx =
     (let tx_type = tx_loan_transaction_type_id tx;
          principal_amount = or_zero (tx_principal_repaid_derived tx);
          interest_amount = or_zero (tx_interest_repaid_derived tx);
          penalties_amount = or_zero (tx_penalties_repaid_derived tx);
          amount = or_zero (tx_amount tx)
      in if tx_type = Some 10 then b\<lparr>penalties_balance := penalties_balance b + amount\<rparr>
         else if tx_type = Some 1 then
           b\<lparr>principal_balance := principal_amount, interest_balance := interest_amount\<rparr>
         else if tx_type = Some 2 \<or> tx_type = Some 6 then
           b\<lparr>principal_balance := principal_balance b - principal_amount,
             interest_balance := interest_balance b - interest_amount,
             penalties_balance := penalties_balance b - penalties_amount\<rparr>
         else b)"

definition total_of :: "running \<Rightarrow> rat" where
  "total_of b = principal_balance b + interest_balance b + penalties_balance b"

definition clear_repaid :: "ltx \<Rightarrow> bool" where
  "clear_repaid tx = (tx_loan_transaction_type_id tx = Some 1 \<or> tx_loan_transaction_type_id tx = Some 10)"

definition set_balances :: "running \<Rightarrow> bool \<Rightarrow> ltx \<Rightarrow> ltx" where
  \<comment> \<open>the SET clause of the UPDATE, applied to one row\<close>
  "set_balances b clear r =
     (let r1 = r\<lparr>tx_principal_balance := Some (principal_balance b),
                 tx_interest_balance := Some (interest_balance b),
                 tx_penalties_balance := Some (penalties_balance b),
                 tx_total_balance := Some (total_of b)\<rparr>
      in if clear then r1\<lparr>tx_principal_repaid_derived := Some 0,
                           tx_interest_repaid_derived := Some 0\<rparr>
         else r1)"

definition update_where_id :: "nat \<Rightarrow> (ltx \<Rightarrow> ltx) \<Rightarrow> ltx list \<Rightarrow> ltx list" where
  \<comment> \<open>\<open>UPDATE loan_transactions SET ... WHERE id = %s\<close>\<close>
  "update_where_id i f table = map (\<lambda>r. if tx_id r = i then f r else r) table"

fun replay :: "running \<Rightarrow> ltx list \<Rightarrow> ltx list \<Rightarrow> ltx list" where
  \<comment> \<open>the loop \<open>for tx in transactions\<close>: the fetched rows, then the table being updated\<close>
  "replay b [] table = table"
| "replay b (tx # transactions) table =
     (let b' = update_balances b tx
      in replay b' transactions (update_where_id (tx_id tx) (set_balances b' (clear_repaid tx)) table))"

definition fetch_transactions :: "ltx list \<Rightarrow> nat \<Rightarrow> ltx list" where
  \<comment> \<open>\<open>SELECT ... WHERE loan_id = %s ORDER BY id\<close>\<close>
  "fetch_transactions table loan_id = sort_key tx_id (filter (\<lambda>r. tx_loan_id r = Some loan_id) table)"

definition settle_loan :: "ltx list \<Rightarrow> nat \<Rightarrow> ltx list" where
  "settle_loan table loan_id = replay initial_balances (fetch_transactions table loan_id) table"

definition loan_ids_with_transactions :: "ltx list \<Rightarrow> nat list" where
  \<comment> \<open>\<open>SELECT DISTINCT loan_id ... WHERE loan_id IS NOT NULL\<close>\<close>
  "loan_ids_with_transactions table = remdups (List.map_filter tx_loan_id table)"

definition settle_table :: "ltx list \<Rightarrow> ltx list" where
  \<comment> \<open>the table after one whole run\<close>
  "settle_table table = foldl settle_loan table (loan_ids_with_transactions table)"

definition balance_columns :: "ltx \<Rightarrow> rat option \<times> rat option \<times> rat option \<times> rat option" where
  "balance_columns r =
     (tx_principal_balance r, tx_interest_balance r, tx_penalties_balance r, tx_total_balance r)"

subsection \<open>Proof devices for the settlement replay\<close>

text \<open>
  \<open>plan\<close> lists, for the fetched rows in order, the id, the running balances after the row
  and the clearing flag: what the loop writes. \<open>apply_plan\<close> is that write applied to one row,
  and \<open>settled_row\<close> the effect of a whole run on one row.
\<close>

fun plan :: "running \<Rightarrow> ltx list \<Rightarrow> (nat \<times> running \<times> bool) list" where
  "plan b [] = []"
| "plan b (tx # transactions) =
     (let b' = update_balances b tx in (tx_id tx, b', clear_repaid tx) # plan b' transactions)"

definition apply_plan :: "(nat \<times> running \<times> bool) list \<Rightarrow> ltx \<Rightarrow> ltx" where
  "apply_plan p r = (case map_of p (tx_id r) of None \<Rightarrow> r | Some (b, c) \<Rightarrow> set_balances b c r)"

definition settled_row :: "ltx list \<Rightarrow> ltx \<Rightarrow> ltx" where
  "settled_row table r = (case tx_loan_id r of None \<Rightarrow> r
     | Some l \<Rightarrow> apply_plan (plan initial_balances (fetch_transactions table l)) r)"

definition disbursements_carry_no_repaid :: "ltx list \<Rightarrow> bool" where
  "disbursements_carry_no_repaid table =
     (\<forall>r \<in> set table. tx_loan_transaction_type_id r = Some 1 \<longrightarrow>
        or_zero (tx_principal_repaid_derived r) = 0 \<and> or_zero (tx_interest_repaid_derived r) = 0)"

definition blank_tx :: ltx where
  "blank_tx = \<lparr>tx_id = 0, tx_loan_id = None, tx_repayment_schedule_id = None,
     tx_loan_transaction_type_id = None, tx_amount = None, tx_debit = None, tx_credit = None,
     tx_principal_repaid_derived = None, tx_interest_repaid_derived = None,
     tx_fees_repaid_derived = None, tx_penalties_repaid_derived = None,
     tx_principal_balance = None, tx_interest_balance = None, tx_fees_balance = None,
     tx_penalties_balance = None, tx_total_balance = None, tx_created_at = None,
     tx_updated_at = None, tx_submitted_on = None, tx_branch_id = None,
     tx_loan_officer_id = None, tx_description = None\<rparr>"

definition example_log :: "ltx list" where
  \<comment> \<open>loan 7: a disbursement, a charge, a repayment; loan 8: a write-off\<close>
  "example_log =
     [blank_tx\<lparr>tx_id := 1, tx_loan_id := Some 7, tx_loan_transaction_type_id := Some 1,
        tx_amount := Some 1200, tx_principal_repaid_derived := Some 1000,
        tx_interest_repaid_derived := Some 200\<rparr>,
      blank_tx\<lparr>tx_id := 2, tx_loan_id := Some 8, tx_loan_transaction_type_id := Some 6,
        tx_amount := Some 30, tx_principal_repaid_derived := Some 30\<rparr>,
      blank_tx\<lparr>tx_id := 3, tx_loan_id := Some 7, tx_loan_transaction_type_id := Some 10,
        tx_amount := Some 50\<rparr>,
      blank_tx\<lparr>tx_id := 4, tx_loan_id := Some 7, tx_loan_transaction_type_id := Some 2,
        tx_amount := Some 130, tx_principal_repaid_derived := Some 100,
        tx_interest_repaid_derived := Some 20, tx_penalties_repaid_derived := Some 10\<rparr>]"

definition disbursement_log :: "ltx list" where
  \<comment> \<open>one loan with a single disbursement of 1000 principal and 200 interest\<close>
  "disbursement_log =
     [blank_tx\<lparr>tx_id := 1, tx_loan_id := Some 7, tx_loan_transaction_type_id := Some 1,
        tx_amount := Some 1200, tx_principal_repaid_derived := Some 1000,
        tx_interest_repaid_derived := Some 200\<rparr>]"

definition repayment_log :: "ltx list" where
  \<comment> \<open>a charge and a repayment, no disbursement\<close>
  "repayment_log =
     [blank_tx\<lparr>tx_id := 1, tx_loan_id := Some 7, tx_loan_transaction_type_id := Some 10,
        tx_amount := Some 50\<rparr>,
      blank_tx\<lparr>tx_id := 2, tx_loan_id := Some 7, tx_loan_transaction_type_id := Some 2,
        tx_amount := Some 130, tx_principal_repaid_derived := Some 100,
        tx_interest_repaid_derived := Some 20, tx_penalties_repaid_derived := Some 10\<rparr>]"

record installment =
  inst_id :: nat
  inst_loan_id :: "nat option"
  inst_installment :: int
  inst_principal :: "rat option"
  inst_interest :: "rat option"
  inst_fees :: "rat option"
  inst_penalties :: "rat option"
  inst_principal_repaid_derived :: "rat option"
  inst_interest_repaid_derived :: "rat option"
  inst_fees_repaid_derived :: "rat option"
  inst_penalties_repaid_derived :: "rat option"
  inst_principal_written_off_derived :: "rat option"
  inst_interest_written_off_derived :: "rat option"
  inst_fees_written_off_derived :: "rat option"
  inst_penalties_written_off_derived :: "rat option"
  inst_interest_waived_derived :: "rat option"
  inst_fees_waived_derived :: "rat option"
  inst_penalties_waived_derived :: "rat option"
  inst_paid_by_date :: "date option"
  inst_status :: "string option"
  inst_is_early_repayment :: bool

record loan =
  ln_id :: nat
  ln_loan_term :: int
  ln_status :: string
  ln_branch_id :: "nat option"
  ln_loan_officer_id :: "nat option"

record db =
  loans :: "loan list"
  loan_repayment_schedules :: "installment list"
  loan_transactions :: "ltx list"

text \<open>
  A connection holds the durable state and the state of the open transaction: statements
  change \<open>pending\<close>, \<open>commit\<close> makes it durable, \<open>rollback\<close> discards it.
\<close>

record conn =
  committed :: db
  pending :: db

definition commit :: "conn \<Rightarrow> conn" where
  "commit c = c\<lparr>committed := pending c\<rparr>"

definition rollback :: "conn \<Rightarrow> conn" where
  "rollback c = c\<lparr>pending := committed c\<rparr>"

definition execute :: "nat option \<Rightarrow> nat \<Rightarrow> 'a \<Rightarrow> py_error + 'a" where
  \<comment> \<open>statement number \<open>k\<close> of a function; the database raises there when \<open>fault = Some k\<close>\<close>
  "execute fault k result = (if fault = Some k then Inl DatabaseError else Inr result)"

definition and_then :: "py_error + 'a \<Rightarrow> ('a \<Rightarrow> py_error + 'b) \<Rightarrow> py_error + 'b" where
  "and_then m f = (case m of Inl e \<Rightarrow> Inl e | Inr x \<Rightarrow> f x)"

subsection \<open>The whole settlement run on a connection\<close>

fun settle_loans :: "nat \<Rightarrow> nat list \<Rightarrow> conn \<Rightarrow> conn" where
  \<comment> \<open>\<open>for i, loan_id in enumerate(loan_ids)\<close>, committing after every 100 loans\<close>
  "settle_loans i [] c = c"
| "settle_loans i (loan_id # loan_ids) c =
     (let c1 = c\<lparr>pending := (pending c)\<lparr>loan_transactions :=
                   settle_loan (loan_transactions (pending c)) loan_id\<rparr>\<rparr>;
          c2 = (if (i + 1) mod 100 = 0 then commit c1 else c1)
      in settle_loans (i + 1) loan_ids c2)"

definition settle_transactions :: "conn \<Rightarrow> conn" where
  \<comment> \<open>a run in which no statement fails\<close>
  "settle_transactions c =
     (let loan_ids = loan_ids_with_transactions (loan_transactions (pending c))
      in if loan_ids = [] then c else commit (settle_loans 0 loan_ids c))"

section \<open>Early settlement (custom\_helper.handle\_early\_settlement, settle\_installments)\<close>

datatype outcome = Completed | NoInstallments | NoUnpaidInstallment

definition select_settlement ::
  "db \<Rightarrow> nat \<Rightarrow> (nat \<times> rat option \<times> rat option \<times> date option \<times> nat option \<times> nat option) option" where
  \<comment> \<open>the last installment joined with its loan: \<open>ORDER BY lrs.installment DESC LIMIT 1\<close>\<close>
  "select_settlement d loan_id =
     (case filter (\<lambda>l. ln_id l = loan_id) (loans d) of
        [] \<Rightarrow> None
      | l # _ \<Rightarrow>
         (case sort_key (\<lambda>r. - inst_installment r)
                 (filter (\<lambda>r. inst_loan_id r = Some loan_id) (loan_repayment_schedules d)) of
            [] \<Rightarrow> None
          | s # _ \<Rightarrow> Some (inst_id s, inst_principal s, inst_interest s, inst_paid_by_date s,
                           ln_branch_id l, ln_loan_officer_id l)))"

definition delete_transactions_of :: "nat \<Rightarrow> db \<Rightarrow> db" where
  \<comment> \<open>\<open>DELETE FROM loan_transactions WHERE repayment_schedule_id = %s\<close>\<close>
  "delete_transactions_of settlement_id d =
     d\<lparr>loan_transactions :=
         filter (\<lambda>t. tx_repayment_schedule_id t \<noteq> Some settlement_id) (loan_transactions d)\<rparr>"

definition outstanding :: "installment \<Rightarrow> rat" where
  \<comment> \<open>due minus repaid, written off and waived, each column with \<open>COALESCE(.., 0)\<close>\<close>
  "outstanding r =
     (or_zero (inst_principal r) + or_zero (inst_interest r) + or_zero (inst_fees r)
        + or_zero (inst_penalties r))
     - (or_zero (inst_principal_repaid_derived r) + or_zero (inst_interest_repaid_derived r)
        + or_zero (inst_fees_repaid_derived r) + or_zero (inst_penalties_repaid_derived r))
     - (or_zero (inst_principal_written_off_derived r) + or_zero (inst_interest_written_off_derived r)
        + or_zero (inst_fees_written_off_derived r) + or_zero (inst_penalties_written_off_derived r))
     - (or_zero (inst_interest_waived_derived r) + or_zero (inst_fees_waived_derived r)
        + or_zero (inst_penalties_waived_derived r))"

definition select_first_unpaid :: "db \<Rightarrow> nat \<Rightarrow> nat option" where
  \<comment> \<open>\<open>... > 0 ORDER BY installment ASC LIMIT 1\<close>\<close>
  "select_first_unpaid d loan_id =
     (case sort_key inst_installment
             (filter (\<lambda>r. inst_loan_id r = Some loan_id \<and> 0 < outstanding r)
                (loan_repayment_schedules d)) of
        [] \<Rightarrow> None
      | r # _ \<Rightarrow> Some (inst_id r))"

definition mark_early_repayment :: "rat \<Rightarrow> nat \<Rightarrow> db \<Rightarrow> db" where
  "mark_early_repayment settlement_fee unpaid_installment_id d =
     d\<lparr>loan_repayment_schedules :=
         map (\<lambda>r. if inst_id r = unpaid_installment_id
                   then r\<lparr>inst_fees := Some settlement_fee,
                          inst_fees_repaid_derived := Some settlement_fee,
                          inst_is_early_repayment := True\<rparr>
                   else r) (loan_repayment_schedules d)\<rparr>"

definition delete_installment :: "nat \<Rightarrow> db \<Rightarrow> db" where
  "delete_installment settlement_id d =
     d\<lparr>loan_repayment_schedules :=
         filter (\<lambda>r. inst_id r \<noteq> settlement_id) (loan_repayment_schedules d)\<rparr>"

definition decrease_loan_term :: "nat \<Rightarrow> db \<Rightarrow> db" where
  "decrease_loan_term loan_id d =
     d\<lparr>loans := map (\<lambda>l. if ln_id l = loan_id then l\<lparr>ln_loan_term := ln_loan_term l - 1\<rparr> else l)
                   (loans d)\<rparr>"

definition payoff_installments :: "date option \<Rightarrow> nat \<Rightarrow> nat \<Rightarrow> db \<Rightarrow> db" where
  \<comment> \<open>\<open>UPDATE ... WHERE loan_id = %s AND id >= %s\<close>\<close>
  "payoff_installments settlement_paid_by_date loan_id unpaid_installment_id d =
     d\<lparr>loan_repayment_schedules :=
         map (\<lambda>r. if inst_loan_id r = Some loan_id \<and> unpaid_installment_id \<le> inst_id r
                   then r\<lparr>inst_principal_repaid_derived := inst_principal r,
                          inst_interest_waived_derived := inst_interest r,
                          inst_paid_by_date := settlement_paid_by_date,
                          inst_status := Some ''payoff''\<rparr>
                   else r) (loan_repayment_schedules d)\<rparr>"

definition select_totals :: "db \<Rightarrow> nat \<Rightarrow> nat \<Rightarrow> rat \<times> rat" where
  \<comment> \<open>\<open>float(SUM(principal) or 0)\<close>, \<open>float(SUM(interest) or 0)\<close>; the aggregate always
      returns a row, so the \<open>if not totals\<close> branch of the source is never taken\<close>
  "select_totals d loan_id unpaid_installment_id =
     (let rows = filter (\<lambda>r. inst_loan_id r = Some loan_id \<and> unpaid_installment_id \<le> inst_id r)
                   (loan_repayment_schedules d)
      in (sum_list (map (\<lambda>r. or_zero (inst_principal r)) rows),
          sum_list (map (\<lambda>r. or_zero (inst_interest r)) rows)))"

definition select_last_balances :: "db \<Rightarrow> nat \<Rightarrow> rat \<times> rat \<times> rat \<times> rat" where
  \<comment> \<open>the balances of the loan's latest transaction, 0 when there is none\<close>
  "select_last_balances d loan_id =
     (case sort_key (\<lambda>t. - int (tx_id t))
             (filter (\<lambda>t. tx_loan_id t = Some loan_id) (loan_transactions d)) of
        [] \<Rightarrow> (0, 0, 0, 0)
      | t # _ \<Rightarrow> (or_zero (tx_principal_balance t), or_zero (tx_interest_balance t),
                   or_zero (tx_fees_balance t), or_zero (tx_penalties_balance t)))"

definition next_tx_id :: "ltx list \<Rightarrow> nat" where
  \<comment> \<open>the auto-increment key of an inserted row\<close>
  "next_tx_id table = Suc (foldr max (map tx_id table) 0)"

definition insert_transaction :: "ltx \<Rightarrow> db \<Rightarrow> db" where
  \<comment> \<open>\<open>insert_record(cursor, "loan_transactions", data)\<close>: columns not given are NULL\<close>
  "insert_transaction data d =
     d\<lparr>loan_transactions :=
         loan_transactions d @ [data\<lparr>tx_id := next_tx_id (loan_transactions d)\<rparr>]\<rparr>"

definition close_loan :: "nat \<Rightarrow> db \<Rightarrow> db" where
  "close_loan loan_id d =
     d\<lparr>loans := map (\<lambda>l. if ln_id l = loan_id then l\<lparr>ln_status := ''closed''\<rparr> else l) (loans d)\<rparr>"

definition fee_tx_data ::
  "nat \<Rightarrow> rat \<Rightarrow> date \<Rightarrow> nat option \<Rightarrow> nat option \<Rightarrow> rat \<Rightarrow> rat \<Rightarrow> rat \<Rightarrow> rat \<Rightarrow> ltx" where
  "fee_tx_data loan_id settlement_fee transaction_datetime branch_id loan_officer_id
      last_principal_balance last_interest_balance new_fees_balance last_penalties_balance =
     blank_tx\<lparr>tx_loan_id := Some loan_id, tx_amount := Some settlement_fee,
       tx_debit := Some settlement_fee, tx_loan_transaction_type_id := Some 15,
       tx_created_at := Some transaction_datetime, tx_updated_at := Some transaction_datetime,
       tx_submitted_on := Some transaction_datetime, tx_branch_id := branch_id,
       tx_loan_officer_id := loan_officer_id,
       tx_principal_balance := Some last_principal_balance,
       tx_interest_balance := Some last_interest_balance,
       tx_fees_balance := Some new_fees_balance,
       tx_penalties_balance := Some last_penalties_balance,
       tx_total_balance := Some (last_principal_balance + last_interest_balance
                                  + new_fees_balance + last_penalties_balance),
       tx_description := Some ''Apply Early Settlement Fee''\<rparr>"

definition settlement_tx_data ::
  "nat \<Rightarrow> rat \<Rightarrow> rat \<Rightarrow> date \<Rightarrow> nat option \<Rightarrow> nat option \<Rightarrow> rat \<Rightarrow> rat \<Rightarrow> ltx" where
  "settlement_tx_data loan_id total_principal settlement_fee transaction_datetime branch_id
      loan_officer_id last_interest_balance last_penalties_balance =
     (let total_settlement_amount = total_principal + settlement_fee;
          new_principal_balance = 0;
          new_fees_balance = 0
      in blank_tx\<lparr>tx_loan_id := Some loan_id, tx_amount := Some total_settlement_amount,
           tx_credit := Some total_settlement_amount,
           tx_principal_repaid_derived := Some total_principal,
           tx_fees_repaid_derived := Some settlement_fee,
           tx_loan_transaction_type_id := Some 14,
           tx_created_at := Some transaction_datetime, tx_updated_at := Some transaction_datetime,
           tx_submitted_on := Some transaction_datetime, tx_branch_id := branch_id,
           tx_loan_officer_id := loan_officer_id,
           tx_principal_balance := Some new_principal_balance,
           tx_interest_balance := Some last_interest_balance,
           tx_fees_balance := Some new_fees_balance,
           tx_penalties_balance := Some last_penalties_balance,
           tx_total_balance := Some (new_principal_balance + last_interest_balance
                                      + new_fees_balance + last_penalties_balance),
           tx_description := Some ''Early settlement''\<rparr>)"

definition interest_tx_data ::
  "nat \<Rightarrow> rat \<Rightarrow> date \<Rightarrow> nat option \<Rightarrow> nat option \<Rightarrow> rat \<Rightarrow> ltx" where
  "interest_tx_data loan_id total_interest transaction_datetime branch_id loan_officer_id
      last_penalties_balance =
     blank_tx\<lparr>tx_loan_id := Some loan_id, tx_amount := Some total_interest,
       tx_credit := Some total_interest, tx_interest_repaid_derived := Some total_interest,
       tx_loan_transaction_type_id := Some 4,
       tx_created_at := Some transaction_datetime, tx_updated_at := Some transaction_datetime,
       tx_submitted_on := Some transaction_datetime, tx_branch_id := branch_id,
       tx_loan_officer_id := loan_officer_id,
       tx_principal_balance := Some 0, tx_interest_balance := Some 0,
       tx_fees_balance := Some 0, tx_penalties_balance := Some last_penalties_balance,
       tx_total_balance := Some 0, tx_description := Some ''Waive Interest''\<rparr>"

definition early_settlement_body ::
  "nat option \<Rightarrow> date \<Rightarrow> db \<Rightarrow> nat \<Rightarrow> py_error + (outcome \<times> db)" where
  \<comment> \<open>the \<open>try\<close> block up to the commit; \<open>today\<close> is \<open>datetime.now()\<close>\<close>
  "early_settlement_body fault today d0 loan_id =
     and_then (execute fault 1 (select_settlement d0 loan_id)) (\<lambda>settlement.
     case settlement of
       None \<Rightarrow> Inr (NoInstallments, d0)
     | Some (settlement_id, settlement_principal, settlement_interest, settlement_paid_by_date,
             branch_id, loan_officer_id) \<Rightarrow>
     let settlement_fee = or_zero settlement_interest in
     and_then (execute fault 2 (delete_transactions_of settlement_id d0)) (\<lambda>d1.
     and_then (execute fault 3 (select_first_unpaid d1 loan_id)) (\<lambda>unpaid_result.
     case unpaid_result of
       None \<Rightarrow> Inr (NoUnpaidInstallment, d1)
     | Some unpaid_installment_id \<Rightarrow>
     and_then (execute fault 4 (mark_early_repayment settlement_fee unpaid_installment_id d1)) (\<lambda>d2.
     and_then (execute fault 5 (delete_installment settlement_id d2)) (\<lambda>d3.
     and_then (execute fault 6 (decrease_loan_term loan_id d3)) (\<lambda>d4.
     and_then (execute fault 7
        (payoff_installments settlement_paid_by_date loan_id unpaid_installment_id d4)) (\<lambda>d5.
     and_then (execute fault 8 (select_totals d5 loan_id unpaid_installment_id))
       (\<lambda>(total_principal, total_interest).
     and_then (execute fault 9 (select_last_balances d5 loan_id))
       (\<lambda>(last_principal_balance, last_interest_balance, last_fees_balance, last_penalties_balance).
     let transaction_datetime =
           (case settlement_paid_by_date of Some dt \<Rightarrow> dt | None \<Rightarrow> today) in
     and_then
       (if 0 < settlement_fee
        then execute fault 10
               (insert_transaction
                  (fee_tx_data loan_id settlement_fee transaction_datetime branch_id loan_officer_id
                     last_principal_balance last_interest_balance
                     (last_fees_balance + settlement_fee) last_penalties_balance) d5)
        else Inr d5) (\<lambda>d6.
     and_then
       (if 0 < total_principal + settlement_fee
        then execute fault 11
               (insert_transaction
                  (settlement_tx_data loan_id total_principal settlement_fee transaction_datetime
                     branch_id loan_officer_id last_interest_balance last_penalties_balance) d6)
        else Inr d6) (\<lambda>d7.
     and_then
       (if 0 < total_interest
        then execute fault 12
               (insert_transaction
                  (interest_tx_data loan_id total_interest transaction_datetime branch_id
                     loan_officer_id last_penalties_balance) d7)
        else Inr d7) (\<lambda>d8.
     and_then (execute fault 13 (close_loan loan_id d8)) (\<lambda>d9.
     Inr (Completed, d9))))))))))))))"

definition handle_early_settlement ::
  "nat option \<Rightarrow> date \<Rightarrow> conn \<Rightarrow> nat \<Rightarrow> (py_error + outcome) \<times> conn" where
  \<comment> \<open>\<open>conn.commit()\<close> ends the \<open>try\<close> block; \<open>except\<close> rolls back and re-raises; the two
      early \<open>return\<close>s neither commit nor roll back\<close>
  "handle_early_settlement fault today c loan_id =
     (case early_settlement_body fault today (pending c) loan_id of
        Inl e \<Rightarrow> (Inl e, rollback c)
      | Inr (Completed, d) \<Rightarrow>
          (case execute fault 14 () of
             Inl e \<Rightarrow> (Inl e, rollback (c\<lparr>pending := d\<rparr>))
           | Inr u \<Rightarrow> (Inr Completed, commit (c\<lparr>pending := d\<rparr>)))
      | Inr (NoInstallments, d) \<Rightarrow> (Inr NoInstallments, c\<lparr>pending := d\<rparr>)
      | Inr (NoUnpaidInstallment, d) \<Rightarrow> (Inr NoUnpaidInstallment, c\<lparr>pending := d\<rparr>))"

fun settle_installments ::
  "(nat \<Rightarrow> nat option) \<Rightarrow> date \<Rightarrow> nat list \<Rightarrow> conn \<Rightarrow> (py_error + unit) \<times> conn" where
  \<comment> \<open>the loop over the early-settled loans found in the target; \<open>fault\<close> gives, per loan,
      the statement at which the database raises\<close>
  "settle_installments fault today [] c = (Inr (), c)"
| "settle_installments fault today (loan_id # early_settled_loans) c =
     (case handle_early_settlement (fault loan_id) today c loan_id of
        (Inl e, c') \<Rightarrow> (Inl e, rollback c')
      | (Inr r, c') \<Rightarrow> settle_installments fault today early_settled_loans c')"

definition settle_installments_action ::
  "(nat \<Rightarrow> nat option) \<Rightarrow> date \<Rightarrow> nat list \<Rightarrow> conn \<Rightarrow> conn" where
  \<comment> \<open>MigrationManager.run\_script, choice "Settle Installments": commit after the run,
      roll back when it raised\<close>
  "settle_installments_action fault today early_settled_loans c =
     (case settle_installments fault today early_settled_loans c of
        (Inr u, c') \<Rightarrow> commit c'
      | (Inl e, c') \<Rightarrow> rollback c')"

subsection \<open>Example databases\<close>

definition blank_installment :: installment where
  "blank_installment = \<lparr>inst_id = 0, inst_loan_id = None, inst_installment = 0,
     inst_principal = None, inst_interest = None, inst_fees = None, inst_penalties = None,
     inst_principal_repaid_derived = None, inst_interest_repaid_derived = None,
     inst_fees_repaid_derived = None, inst_penalties_repaid_derived = None,
     inst_principal_written_off_derived = None, inst_interest_written_off_derived = None,
     inst_fees_written_off_derived = None, inst_penalties_written_off_derived = None,
     inst_interest_waived_derived = None, inst_fees_waived_derived = None,
     inst_penalties_waived_derived = None, inst_paid_by_date = None, inst_status = None,
     inst_is_early_repayment = False\<rparr>"

definition example_today :: date where
  "example_today = \<lparr>year = 2025, month = 6, day = 1\<rparr>"

definition example_loan :: loan where
  "example_loan = \<lparr>ln_id = 1, ln_loan_term = 2, ln_status = ''active'',
     ln_branch_id = Some 3, ln_loan_officer_id = Some 4\<rparr>"

definition paid_up_db :: db where
  \<comment> \<open>loan 1 with two fully repaid installments and a repayment booked on the last one\<close>
  "paid_up_db = \<lparr>
     loans = [example_loan],
     loan_repayment_schedules =
       [blank_installment\<lparr>inst_id := 10, inst_loan_id := Some 1, inst_installment := 1,
          inst_principal := Some 100, inst_principal_repaid_derived := Some 100\<rparr>,
        blank_installment\<lparr>inst_id := 11, inst_loan_id := Some 1, inst_installment := 2,
          inst_principal := Some 100, inst_interest := Some 5,
          inst_principal_repaid_derived := Some 100, inst_interest_repaid_derived := Some 5\<rparr>],
     loan_transactions =
       [blank_tx\<lparr>tx_id := 1, tx_loan_id := Some 1, tx_repayment_schedule_id := Some 11,
          tx_loan_transaction_type_id := Some 2, tx_amount := Some 105\<rparr>]\<rparr>"

definition last_unpaid_db :: db where
  \<comment> \<open>loan 1 whose first installment is repaid and whose last installment is the unpaid one\<close>
  "last_unpaid_db = \<lparr>
     loans = [example_loan],
     loan_repayment_schedules =
       [blank_installment\<lparr>inst_id := 10, inst_loan_id := Some 1, inst_installment := 1,
          inst_principal := Some 100, inst_principal_repaid_derived := Some 100\<rparr>,
        blank_installment\<lparr>inst_id := 11, inst_loan_id := Some 1, inst_installment := 2,
          inst_principal := Some 100, inst_interest := Some 5\<rparr>],
     loan_transactions = []\<rparr>"

definition open_conn :: "db \<Rightarrow> conn" where
  \<comment> \<open>a connection with nothing pending\<close>
  "open_conn d = \<lparr>committed = d, pending = d\<rparr>"

section \<open>Binary64 floating point\<close>














section \<open>Rows of a migration\<close>

text \<open>
  The values the driver hands to the transformer. \<open>PFloat\<close> is a number with a fraction
  (a float, or a Decimal or numeric text by the number it denotes); \<open>PStr\<close> is any other text;
  \<open>PDouble\<close> is a float given by its IEEE-754 bits, as \<open>struct.unpack\<close> returns it;
  \<open>PDateTime\<close> is a date with the seconds since midnight. A row is a Python dict: an
  association list in insertion order.
\<close>

datatype pyval =
    PNone | PBool bool | PInt int | PFloat rat | PStr string | PBytes "8 word list"
  | PDouble "64 word" | PDate date | PDateTime date nat

type_synonym row = "(string \<times> pyval) list"

definition double_value :: "64 word \<Rightarrow> rat option" where
  \<comment> \<open>the number a finite IEEE-754 double denotes; None for an infinity or a NaN\<close>
  "double_value w =
     (let s = bit w 63;
          e = unat (take_bit 11 (drop_bit 52 w));
          m = unat (take_bit 52 w);
          v = (if e = 0 then of_nat m / 2 ^ 1074
               else if 1075 \<le> e then of_nat (2 ^ 52 + m) * 2 ^ (e - 1075)
               else of_nat (2 ^ 52 + m) / 2 ^ (1075 - e))
      in if e = 2047 then None else Some (if s then - v else v))"

definition truthy :: "pyval \<Rightarrow> bool" where
  "truthy v = (case v of
       PNone \<Rightarrow> False
     | PBool b \<Rightarrow> b
     | PInt i \<Rightarrow> i \<noteq> 0
     | PFloat r \<Rightarrow> r \<noteq> 0
     | PStr s \<Rightarrow> s \<noteq> []
     | PBytes bs \<Rightarrow> bs \<noteq> []
     | PDouble w \<Rightarrow> take_bit 63 w \<noteq> 0
     | PDate d \<Rightarrow> True
     | PDateTime d s \<Rightarrow> True)"

definition py_float :: "pyval \<Rightarrow> py_error + rat" where
  \<comment> \<open>\<open>float(v)\<close>; a \<open>PStr\<close> is text that is not a number\<close>
  "py_float v = (case v of
       PNone \<Rightarrow> Inl TypeError
     | PBool b \<Rightarrow> Inr (if b then 1 else 0)
     | PInt i \<Rightarrow> Inr (of_int i)
     | PFloat r \<Rightarrow> Inr r
     | PStr s \<Rightarrow> Inl ValueError
     | PBytes bs \<Rightarrow> Inl ValueError
     | PDouble w \<Rightarrow> (case double_value w of Some r \<Rightarrow> Inr r | None \<Rightarrow> Inl ValueError)
     | PDate d \<Rightarrow> Inl TypeError
     | PDateTime d s \<Rightarrow> Inl TypeError)"

definition truncate :: "rat \<Rightarrow> int" where
  \<comment> \<open>rounding towards zero\<close>
  "truncate r = (if 0 \<le> r then \<lfloor>r\<rfloor> else \<lceil>r\<rceil>)"

definition py_int :: "pyval \<Rightarrow> py_error + int" where
  \<comment> \<open>\<open>int(v)\<close>\<close>
  "py_int v = (case v of
       PNone \<Rightarrow> Inl TypeError
     | PBool b \<Rightarrow> Inr (if b then 1 else 0)
     | PInt i \<Rightarrow> Inr i
     | PFloat r \<Rightarrow> Inr (truncate r)
     | PStr s \<Rightarrow> py_int_of_str s
     | PBytes bs \<Rightarrow> py_int_of_str (map (\<lambda>b. char_of (unat b)) bs)
     | PDouble w \<Rightarrow> (case double_value w of Some r \<Rightarrow> Inr (truncate r) | None \<Rightarrow> Inl ValueError)
     | PDate d \<Rightarrow> Inl TypeError
     | PDateTime d s \<Rightarrow> Inl TypeError)"


definition has_key :: "row \<Rightarrow> string \<Rightarrow> bool" where
  \<comment> \<open>\<open>k in row\<close>\<close>
  "has_key r k = (map_of r k \<noteq> None)"

definition dict_get :: "row \<Rightarrow> string \<Rightarrow> pyval" where
  \<comment> \<open>\<open>row.get(k)\<close>\<close>
  "dict_get r k = (case map_of r k of None \<Rightarrow> PNone | Some v \<Rightarrow> v)"

definition dict_get_default :: "row \<Rightarrow> string \<Rightarrow> pyval \<Rightarrow> pyval" where
  \<comment> \<open>\<open>row.get(k, default)\<close>\<close>
  "dict_get_default r k dflt = (case map_of r k of None \<Rightarrow> dflt | Some v \<Rightarrow> v)"

definition dict_item :: "row \<Rightarrow> string \<Rightarrow> py_error + pyval" where
  \<comment> \<open>\<open>row[k]\<close>\<close>
  "dict_item r k = (case map_of r k of None \<Rightarrow> Inl KeyError | Some v \<Rightarrow> Inr v)"

definition dict_set :: "row \<Rightarrow> string \<Rightarrow> pyval \<Rightarrow> row" where
  \<comment> \<open>\<open>row[k] = v\<close>\<close>
  "dict_set r k v = AList.update k v r"

section \<open>Loan products (CustomLogic.process\_columns, branch "loan\_products")\<close>













section \<open>Loans: the first payment date (CustomLogic.process\_columns, branch "loans")\<close>

datatype advanced = Replaced date | LastDay date

definition advance_one_month :: "date \<Rightarrow> py_error + advanced" where
  \<comment> \<open>\<open>replace(year, month)\<close> of the date; when it raises ValueError, the first day of the
      month after, minus one day, as a datetime\<close>
  "advance_one_month disbursed_date =
     (let month0 = month disbursed_date + 1;
          year0 = year disbursed_date;
          m = (if 12 < month0 then 1 else month0);
          y = (if 12 < month0 then year0 + 1 else year0)
      in case date_replace disbursed_date y m of
           Inr d \<Rightarrow> Inr (Replaced d)
         | Inl e \<Rightarrow>
             (if m = 12
              then and_then (mk_date (y + 1) 1 1) (\<lambda>f.
                   and_then (minus_one_day f) (\<lambda>d. Inr (LastDay d)))
              else and_then (mk_date y (m + 1) 1) (\<lambda>f.
                   and_then (minus_one_day f) (\<lambda>d. Inr (LastDay d)))))"

definition set_first_payment_date :: "row \<Rightarrow> py_error + row" where
  \<comment> \<open>lines 470 to 498; a value that is no date has no \<open>month\<close> attribute\<close>
  "set_first_payment_date row_data =
     (if has_key row_data ''disbursed_on_date'' \<and> truthy (dict_get row_data ''disbursed_on_date'')
      then (case dict_get row_data ''disbursed_on_date'' of
              PDate d \<Rightarrow>
                and_then (advance_one_month d) (\<lambda>a.
                Inr (dict_set row_data ''first_payment_date''
                       (case a of Replaced d' \<Rightarrow> PDate d' | LastDay d' \<Rightarrow> PDateTime d' 0)))
            | PDateTime d s \<Rightarrow>
                and_then (advance_one_month d) (\<lambda>a.
                Inr (dict_set row_data ''first_payment_date''
                       (case a of Replaced d' \<Rightarrow> PDateTime d' s | LastDay d' \<Rightarrow> PDateTime d' 0)))
            | _ \<Rightarrow> Inl AttributeError)
      else Inr row_data)"

definition date_of :: "pyval \<Rightarrow> date option" where
  "date_of v = (case v of PDate d \<Rightarrow> Some d | PDateTime d s \<Rightarrow> Some d | _ \<Rightarrow> None)"

definition add_month_clamped :: "date \<Rightarrow> date" where
  \<comment> \<open>the specification's words: one calendar month later, the day clamped to the last
      valid day of the target month\<close>
  "add_month_clamped d =
     (let y = (if month d = 12 then year d + 1 else year d);
          m = (if month d = 12 then 1 else month d + 1)
      in \<lparr>year = y, month = m, day = min (day d) (days_in_month y m)\<rparr>)"

definition example_disbursed :: row where
  "example_disbursed =
     [(''principal'', PInt 5000),
      (''disbursed_on_date'', PDate \<lparr>year = 2024, month = 1, day = 31\<rparr>)]"

definition disbursed_in_last_month :: row where
  "disbursed_in_last_month =
     [(''disbursed_on_date'', PDate \<lparr>year = 9999, month = 12, day = 15\<rparr>)]"

section \<open>The migration driver and the transactions transformer\<close>

text \<open>
  The state of one migration run: the rows inserted so far into the target table (not yet
  committed), the counters of the \<open>CustomLogic\<close> instance and the driver's two counters.
  The database is a parameter: \<open>accepts\<close> says which rows an INSERT into the target table
  takes (the others raise), \<open>lookup table key_column key column\<close> is
  \<open>get_record_value\<close> (NULL when nothing is found), \<open>now\<close> is \<open>datetime.now()\<close>.
\<close>

record logic_state =
  skipped_transactions :: nat
  inserted_transactions :: nat
  skipped_types_count :: "(int option \<times> nat) list"

record migration =
  target_rows :: "row list"
  logic :: logic_state
  successful_inserts :: nat
  failed_inserts :: nat

definition insert_record :: "(row \<Rightarrow> bool) \<Rightarrow> row \<Rightarrow> row list \<Rightarrow> py_error + row list" where
  \<comment> \<open>\<open>INSERT INTO table (columns of data) VALUES (...)\<close>\<close>
  "insert_record accepts data table = (if accepts data then Inr (table @ [data]) else Inl DatabaseError)"

definition try_insert :: "(row \<Rightarrow> bool) \<Rightarrow> row \<Rightarrow> migration \<Rightarrow> migration" where
  \<comment> \<open>\<open>try: insert_record(...) except Exception: log\<close>\<close>
  "try_insert accepts data st =
     (case insert_record accepts data (target_rows st) of
        Inr table \<Rightarrow> st\<lparr>target_rows := table\<rparr>
      | Inl e \<Rightarrow> st)"

subsection \<open>CustomLogic.process\_columns, branch "transactions"\<close>

definition common_lookups ::
  "(string \<Rightarrow> string \<Rightarrow> pyval \<Rightarrow> string \<Rightarrow> pyval) \<Rightarrow> row \<Rightarrow> row \<Rightarrow> row" where
  \<comment> \<open>the lookups at the head of \<open>process_columns\<close> that apply to "transactions":
      branch, original branch and officer\<close>
  "common_lookups lookup source_row row_data =
     (let branch_code = dict_get source_row ''branch_code'';
          r1 = (if truthy branch_code
                then (let branch_id = lookup ''branches'' ''external_id'' branch_code ''id''
                      in if truthy branch_id then dict_set row_data ''branch_id'' branch_id
                         else row_data)
                else row_data);
          org_branch_code = dict_get source_row ''org_branch_code'';
          r2 = (if truthy org_branch_code
                then (let org_branch_id = lookup ''branches'' ''external_id'' org_branch_code ''id''
                      in if truthy org_branch_id then dict_set r1 ''old_branch_code'' org_branch_id
                         else r1)
                else r1);
          officer_key = dict_get source_row ''officer_key''
      in if truthy officer_key
         then (let loan_officer_id = lookup ''users'' ''external_id'' officer_key ''id''
               in if truthy loan_officer_id
                  then dict_set (dict_set r2 ''loan_officer_id'' loan_officer_id)
                         ''created_by_id'' loan_officer_id
                  else r2)
         else r2)"

definition resolve_loan ::
  "(string \<Rightarrow> string \<Rightarrow> pyval \<Rightarrow> string \<Rightarrow> pyval) \<Rightarrow> row \<Rightarrow> row \<Rightarrow> row" where
  "resolve_loan lookup source_row row_data =
     (let loan_key = dict_get source_row ''loan_key''
      in if truthy loan_key
         then (let loan_id = lookup ''loans'' ''external_id'' loan_key ''id'';
                   r1 = (if truthy loan_id
                         then (let loan_status = lookup ''loans'' ''id'' loan_id ''status''
                               in dict_set (dict_set row_data ''loan_id'' loan_id) ''reversed''
                                    (PBool (loan_status = PStr ''withdrawn''
                                            \<or> loan_status = PStr ''rejected'')))
                         else row_data);
                   installment_key = dict_get source_row ''installment_key''
               in if truthy installment_key
                  then (let repayment_schedule_id =
                              lookup ''loan_repayment_schedules'' ''external_id'' installment_key ''id''
                        in if truthy loan_id
                           then dict_set r1 ''repayment_schedule_id'' repayment_schedule_id
                           else r1)
                  else r1)
         else row_data)"

definition coalesce_zero :: "string \<Rightarrow> row \<Rightarrow> row" where
  \<comment> \<open>\<open>if row_data.get(k) is None: row_data[k] = 0\<close>\<close>
  "coalesce_zero k row_data = (if dict_get row_data k = PNone then dict_set row_data k (PInt 0) else row_data)"

definition trans_type_mapping :: "(int \<times> int) list" where
  "trans_type_mapping = [(1, 2), (3, 1), (7, 6), (17, 10), (2, 2), (4, 1), (8, 6), (18, 10)]"

definition cancellation_types :: "int set" where
  "cancellation_types = {2, 4, 8, 18}"

definition convert_trans_type :: "pyval \<Rightarrow> py_error + int option" where
  \<comment> \<open>\<open>trans_type_int\<close>: None for NULL, the integer otherwise; when \<open>int()\<close> raises the name
      stays unbound, and its first use raises UnboundLocalError\<close>
  "convert_trans_type trans_type =
     (if trans_type = PNone then Inr None
      else (case py_int trans_type of Inr i \<Rightarrow> Inr (Some i) | Inl e \<Rightarrow> Inl UnboundLocalError))"

definition penalties_tx_data :: "pyval \<Rightarrow> row \<Rightarrow> rat \<Rightarrow> bool \<Rightarrow> row" where
  "penalties_tx_data now row_data penalties_amount is_cancellation =
     (let adjusted_penalties_amount = (if is_cancellation then - penalties_amount else penalties_amount)
      in [(''loan_id'', dict_get row_data ''loan_id''),
          (''amount'', PFloat adjusted_penalties_amount),
          (''debit'', PFloat adjusted_penalties_amount),
          (''penalties_repaid_derived'', PFloat adjusted_penalties_amount),
          (''loan_transaction_type_id'', PInt 12),
          (''created_at'', dict_get_default row_data ''created_at'' now),
          (''updated_at'', now),
          (''submitted_on'', dict_get_default row_data ''submitted_on'' now),
          (''branch_id'', dict_get row_data ''branch_id''),
          (''loan_officer_id'', dict_get row_data ''loan_officer_id''),
          (''description'', PStr (if is_cancellation then ''Cancel Apply Penalty'' else ''Apply Penalty''))])"

definition fees_tx_data :: "pyval \<Rightarrow> row \<Rightarrow> rat \<Rightarrow> bool \<Rightarrow> row" where
  "fees_tx_data now row_data fees_amount is_cancellation =
     (let adjusted_fees_amount = (if is_cancellation then - fees_amount else fees_amount)
      in [(''loan_id'', dict_get row_data ''loan_id''),
          (''amount'', PFloat adjusted_fees_amount),
          (''credit'', PFloat adjusted_fees_amount),
          (''fees_repaid_derived'', PFloat adjusted_fees_amount),
          (''loan_transaction_type_id'', PInt 2),
          (''created_at'', dict_get_default row_data ''created_at'' now),
          (''updated_at'', now),
          (''submitted_on'', dict_get_default row_data ''submitted_on'' now),
          (''branch_id'', dict_get row_data ''branch_id''),
          (''loan_officer_id'', dict_get row_data ''loan_officer_id''),
          (''description'', PStr (if is_cancellation then ''Cancel Pay Charges'' else ''Pay Charges''))])"

definition side_channel ::
  "(row \<Rightarrow> bool) \<Rightarrow> pyval \<Rightarrow> row \<Rightarrow> py_error + int option \<Rightarrow> migration
     \<Rightarrow> (py_error + unit) \<times> migration" where
  \<comment> \<open>the separate penalty and charges transactions, inserted at once\<close>
  "side_channel accepts now row_data trans_type_int st =
     (case py_float (dict_get_default row_data ''penalties_repaid_derived'' (PInt 0)) of
        Inl e \<Rightarrow> (Inl e, st)
      | Inr penalties_amount \<Rightarrow>
         (case (if 0 < penalties_amount \<and> has_key row_data ''loan_id''
                then (case trans_type_int of
                        Inl e \<Rightarrow> (Inl e, st)
                      | Inr t \<Rightarrow>
                          (Inr (), try_insert accepts
                             (penalties_tx_data now row_data penalties_amount
                                (case t of None \<Rightarrow> False | Some i \<Rightarrow> i \<in> cancellation_types)) st))
                else (Inr (), st)) of
            (Inl e, st1) \<Rightarrow> (Inl e, st1)
          | (Inr u, st1) \<Rightarrow>
             (case trans_type_int of
                Inl e \<Rightarrow> (Inl e, st1)
              | Inr t \<Rightarrow>
                 if (t = Some 17 \<or> t = Some 18) \<and> has_key row_data ''loan_id''
                 then (case py_float (dict_get_default row_data ''amount'' (PInt 0)) of
                         Inl e \<Rightarrow> (Inl e, st1)
                       | Inr fees_amount \<Rightarrow>
                           if 0 < fees_amount
                           then (Inr (), try_insert accepts
                                   (fees_tx_data now row_data fees_amount (t = Some 18)) st1)
                           else (Inr (), st1))
                 else (Inr (), st1))))"

definition make_non_negative :: "string \<Rightarrow> row \<Rightarrow> py_error + row" where
  \<comment> \<open>one round of the loop "Convert negative values to positive"\<close>
  "make_non_negative field row_data =
     (if has_key row_data field \<and> dict_get row_data field \<noteq> PNone
      then and_then (py_float (dict_get row_data field)) (\<lambda>v.
           Inr (if v < 0 then dict_set row_data field (PFloat \<bar>v\<bar>) else row_data))
      else Inr row_data)"

definition add_one_hour :: "pyval \<Rightarrow> py_error + pyval" where
  \<comment> \<open>\<open>created_at + timedelta(hours=1)\<close> for a datetime; any other value stays\<close>
  "add_one_hour v =
     (case v of
        PDateTime d s \<Rightarrow>
          if s + 3600 < 86400 then Inr (PDateTime d (s + 3600))
          else and_then (plus_one_day d) (\<lambda>d'. Inr (PDateTime d' (s + 3600 - 86400)))
      | _ \<Rightarrow> Inr v)"

definition set_timestamps :: "pyval \<Rightarrow> row \<Rightarrow> py_error + row" where
  "set_timestamps now row_data =
     (let r1 = dict_set row_data ''updated_at'' now
      in and_then (if has_key r1 ''created_at''
                   then and_then (add_one_hour (dict_get r1 ''created_at'')) (\<lambda>c.
                        Inr (dict_set r1 ''created_at'' c))
                   else Inr r1) (\<lambda>r2.
         if \<not> has_key r2 ''submitted_on'' \<or> dict_get r2 ''submitted_on'' = PNone
         then and_then (dict_item r2 ''created_at'') (\<lambda>c. Inr (dict_set r2 ''submitted_on'' c))
         else Inr r2))"

definition split_amount :: "row \<Rightarrow> py_error + row" where
  \<comment> \<open>principal = amount - interest; amount = amount + penalties\<close>
  "split_amount row_data =
     and_then (dict_item row_data ''amount'') (\<lambda>a.
     and_then (py_float a) (\<lambda>amount.
     and_then (dict_item row_data ''interest_repaid_derived'') (\<lambda>i.
     and_then (py_float i) (\<lambda>interest_repaid.
     let r1 = dict_set row_data ''principal_repaid_derived'' (PFloat (amount - interest_repaid))
     in and_then (dict_item r1 ''penalties_repaid_derived'') (\<lambda>p.
        and_then (py_float p) (\<lambda>penalties.
        Inr (dict_set r1 ''amount'' (PFloat (amount + penalties)))))))))"

definition make_negative :: "string \<Rightarrow> row \<Rightarrow> py_error + row" where
  \<comment> \<open>\<open>try: v = float(row[k]); if v > 0: row[k] = -v except (ValueError, TypeError): log\<close>\<close>
  "make_negative field row_data =
     and_then (dict_item row_data field) (\<lambda>x.
     Inr (case py_float x of
            Inr v \<Rightarrow> if 0 < v then dict_set row_data field (PFloat (- v)) else row_data
          | Inl e \<Rightarrow> row_data))"

definition recalculate_principal :: "row \<Rightarrow> py_error + row" where
  "recalculate_principal row_data =
     and_then (dict_item row_data ''amount'') (\<lambda>a.
     case py_float a of
       Inl e \<Rightarrow> Inr row_data
     | Inr amount \<Rightarrow>
         and_then (dict_item row_data ''interest_repaid_derived'') (\<lambda>i.
         Inr (case py_float i of
                Inl e \<Rightarrow> row_data
              | Inr interest \<Rightarrow>
                  dict_set row_data ''principal_repaid_derived'' (PFloat (amount - interest)))))"

definition cancellation_flip :: "row \<Rightarrow> py_error + row" where
  "cancellation_flip row_data =
     and_then (make_negative ''amount'' row_data) (\<lambda>r1.
     and_then (make_negative ''interest_repaid_derived'' r1) (\<lambda>r2.
     and_then (make_negative ''penalties_repaid_derived'' r2) (\<lambda>r3.
     recalculate_principal r3)))"

definition count_skip :: "int option \<Rightarrow> logic_state \<Rightarrow> logic_state" where
  "count_skip trans_type l =
     l\<lparr>skipped_transactions := skipped_transactions l + 1,
       skipped_types_count :=
         AList.update trans_type
           ((case map_of (skipped_types_count l) trans_type of None \<Rightarrow> 0 | Some n \<Rightarrow> n) + 1)
           (skipped_types_count l)\<rparr>"

definition set_type_and_sides :: "int \<Rightarrow> row \<Rightarrow> py_error + row" where
  \<comment> \<open>the target type; disbursement (1) and apply charges (10) carry the amount as debit\<close>
  "set_type_and_sides target_type row_data =
     (let r1 = dict_set row_data ''loan_transaction_type_id'' (PInt target_type)
      in and_then (dict_item r1 ''amount'') (\<lambda>a.
         Inr (if target_type = 1 \<or> target_type = 10
              then dict_set (dict_set r1 ''debit'' a) ''credit'' (PInt 0)
              else dict_set (dict_set r1 ''debit'' (PInt 0)) ''credit'' a)))"

definition skip_transaction ::
  "int option \<Rightarrow> row \<Rightarrow> migration \<Rightarrow> (py_error + row) \<times> migration" where
  \<comment> \<open>the branch \<open>if trans_type not in trans_type_mapping\<close>: count, flag the row, return it\<close>
  "skip_transaction trans_type row_data st =
     (Inr (dict_set row_data ''_skip_this_row'' (PBool True)),
      st\<lparr>logic := count_skip trans_type (logic st)\<rparr>)"

definition finish_transaction ::
  "int option \<Rightarrow> row \<Rightarrow> migration \<Rightarrow> (py_error + row) \<times> migration" where
  \<comment> \<open>from "Skip transactions that don't have a mapping" to the end of the branch\<close>
  "finish_transaction trans_type row_data st =
     (case trans_type of
        None \<Rightarrow> skip_transaction trans_type row_data st
      | Some t \<Rightarrow>
         (case map_of trans_type_mapping t of
            None \<Rightarrow> skip_transaction trans_type row_data st
          | Some target_type \<Rightarrow>
              (case (if t \<in> cancellation_types then cancellation_flip row_data
                     else Inr row_data) of
                 Inl e \<Rightarrow> (Inl e, st)
               | Inr r1 \<Rightarrow>
                   (set_type_and_sides target_type r1,
                    st\<lparr>logic := (logic st)\<lparr>inserted_transactions :=
                                     inserted_transactions (logic st) + 1\<rparr>\<rparr>))))"

definition process_transactions ::
  "(row \<Rightarrow> bool) \<Rightarrow> (string \<Rightarrow> string \<Rightarrow> pyval \<Rightarrow> string \<Rightarrow> pyval) \<Rightarrow> pyval
     \<Rightarrow> row \<Rightarrow> row \<Rightarrow> migration \<Rightarrow> (py_error + row) \<times> migration" where
  "process_transactions accepts lookup now row_data source_row st =
     (if source_row = [] then (Inr row_data, st)
      else
        let r1 = resolve_loan lookup source_row (common_lookups lookup source_row row_data);
            r2 = coalesce_zero ''penalties_repaid_derived''
                   (coalesce_zero ''interest_repaid_derived'' (coalesce_zero ''amount'' r1));
            trans_type_int = convert_trans_type (dict_get source_row ''trans_act'')
        in case side_channel accepts now r2 trans_type_int st of
             (Inl e, st1) \<Rightarrow> (Inl e, st1)
           | (Inr u, st1) \<Rightarrow>
              (case and_then (make_non_negative ''amount'' r2) (\<lambda>r3.
                    and_then (make_non_negative ''interest_repaid_derived'' r3) (\<lambda>r4.
                    and_then (make_non_negative ''penalties_repaid_derived'' r4) (\<lambda>r5.
                    and_then (set_timestamps now r5) split_amount))) of
                 Inl e \<Rightarrow> (Inl e, st1)
               | Inr r6 \<Rightarrow>
                   (case trans_type_int of
                      Inl e \<Rightarrow> (Inl e, st1)
                    | Inr trans_type \<Rightarrow> finish_transaction trans_type r6 st1)))"

definition neg :: "rat \<Rightarrow> rat" where
  \<comment> \<open>proof device: the value \<open>make_negative\<close> leaves\<close>
  "neg v = (if 0 < v then - v else v)"

subsection \<open>MigrationManager.run\_script: one source record\<close>

definition build_rows :: "(string \<times> string) list \<Rightarrow> pyval list \<Rightarrow> row \<times> row" where
  \<comment> \<open>the mapping as (source column, target column) pairs; gives (processed\_row, source\_row)\<close>
  "build_rows mapping record =
     (foldl (\<lambda>r ((src, tgt), v). dict_set r tgt v) [] (zip mapping record),
      foldl (\<lambda>r ((src, tgt), v). dict_set r src v) [] (zip mapping record))"

definition migrate_record ::
  "(row \<Rightarrow> bool) \<Rightarrow> (row \<Rightarrow> row \<Rightarrow> migration \<Rightarrow> (py_error + row) \<times> migration)
     \<Rightarrow> (string \<times> string) list \<Rightarrow> migration \<Rightarrow> pyval list \<Rightarrow> migration" where
  \<comment> \<open>the body of \<open>for i, row in enumerate(data_to_migrate)\<close> for a migration without
      post-insert steps. The transformer changes \<open>processed_row\<close> in place and its return
      value is dropped, so the test \<open>processed_row is None\<close> never holds; an exception of the
      transformer or of the INSERT counts the record as failed\<close>
  "migrate_record accepts process_columns mapping st record =
     (let (processed_row, source_row) = build_rows mapping record
      in case process_columns processed_row source_row st of
           (Inl e, st1) \<Rightarrow> st1\<lparr>failed_inserts := failed_inserts st1 + 1\<rparr>
         | (Inr processed_row', st1) \<Rightarrow>
             (case insert_record accepts processed_row' (target_rows st1) of
                Inl e \<Rightarrow> st1\<lparr>failed_inserts := failed_inserts st1 + 1\<rparr>
              | Inr table \<Rightarrow>
                  st1\<lparr>target_rows := table, successful_inserts := successful_inserts st1 + 1\<rparr>))"

definition migrate_transactions ::
  "(row \<Rightarrow> bool) \<Rightarrow> (string \<Rightarrow> string \<Rightarrow> pyval \<Rightarrow> string \<Rightarrow> pyval) \<Rightarrow> pyval
     \<Rightarrow> (string \<times> string) list \<Rightarrow> migration \<Rightarrow> pyval list list \<Rightarrow> migration" where
  "migrate_transactions accepts lookup now mapping st data_to_migrate =
     foldl (migrate_record accepts (process_transactions accepts lookup now) mapping) st data_to_migrate"

definition new_migration :: migration where
  "new_migration = \<lparr>target_rows = [],
     logic = \<lparr>skipped_transactions = 0, inserted_transactions = 0, skipped_types_count = []\<rparr>,
     successful_inserts = 0, failed_inserts = 0\<rparr>"

subsection \<open>Example data\<close>

definition loan_transactions_columns :: "string list" where
  "loan_transactions_columns =
     [''id'', ''loan_id'', ''repayment_schedule_id'', ''loan_transaction_type_id'', ''amount'',
      ''debit'', ''credit'', ''principal_repaid_derived'', ''interest_repaid_derived'',
      ''fees_repaid_derived'', ''penalties_repaid_derived'', ''principal_balance'',
      ''interest_balance'', ''fees_balance'', ''penalties_balance'', ''total_balance'',
      ''created_at'', ''updated_at'', ''submitted_on'', ''branch_id'', ''old_branch_code'',
      ''loan_officer_id'', ''created_by_id'', ''reversed'', ''description'', ''external_id'']"

definition known_columns :: "row \<Rightarrow> bool" where
  \<comment> \<open>a target table that raises on a column it does not have\<close>
  "known_columns data = list_all (\<lambda>(k, v). k \<in> set loan_transactions_columns) data"

definition example_mapping :: "(string \<times> string) list" where
  "example_mapping =
     [(''trans_key'', ''external_id''), (''loan_key'', ''loan_id''),
      (''trans_act'', ''loan_transaction_type_id''),
      (''trans_am'', ''amount''), (''int_am'', ''interest_repaid_derived''),
      (''pen_am'', ''penalties_repaid_derived''), (''trans_date'', ''created_at'')]"

definition example_lookup :: "string \<Rightarrow> string \<Rightarrow> pyval \<Rightarrow> string \<Rightarrow> pyval" where
  \<comment> \<open>a target holding loan 7 (external id L7, active) and nothing else\<close>
  "example_lookup table key_column key column =
     (if table = ''loans'' \<and> key_column = ''external_id'' \<and> key = PStr ''L7'' \<and> column = ''id''
      then PInt 7
      else if table = ''loans'' \<and> key_column = ''id'' \<and> key = PInt 7 \<and> column = ''status''
      then PStr ''active''
      else PNone)"

definition example_now :: pyval where
  "example_now = PDateTime \<lparr>year = 2025, month = 6, day = 1\<rparr> 43200"

definition unmapped_record :: "pyval list" where
  \<comment> \<open>source type 99, amount 100, interest 10, no penalties\<close>
  "unmapped_record =
     [PInt 501, PStr ''L7'', PInt 99, PFloat 100, PFloat 10, PInt 0,
      PDateTime \<lparr>year = 2024, month = 5, day = 2\<rparr> 36000]"

definition unmapped_record_with_penalty :: "pyval list" where
  \<comment> \<open>source type 99 with penalties of 5\<close>
  "unmapped_record_with_penalty =
     [PInt 502, PStr ''L7'', PInt 99, PFloat 100, PFloat 10, PFloat 5,
      PDateTime \<lparr>year = 2024, month = 5, day = 2\<rparr> 36000]"

definition cancellation_record :: "pyval list" where
  \<comment> \<open>source type 2 (cancel repayment), amount 100, interest 10, penalties 5\<close>
  "cancellation_record =
     [PInt 503, PStr ''L7'', PInt 2, PFloat 100, PFloat (- 10), PFloat 5,
      PDateTime \<lparr>year = 2024, month = 5, day = 2\<rparr> 36000]"

definition cancellation_rows :: "row \<times> row" where
  \<comment> \<open>(processed\_row, source\_row) of the cancellation record\<close>
  "cancellation_rows = build_rows example_mapping cancellation_record"

definition accept_all :: "row \<Rightarrow> bool" where
  "accept_all data = True"

section \<open>Clients: coordinates of the home geography\<close>

subsection \<open>custom\_helper.extract\_lat\_lon\_from\_wkb\<close>

definition hex_val :: "char \<Rightarrow> nat option" where
  "hex_val c =
     (let n = (of_char c :: nat)
      in if 48 \<le> n \<and> n \<le> 57 then Some (n - 48)
         else if 65 \<le> n \<and> n \<le> 70 then Some (n - 55)
         else if 97 \<le> n \<and> n \<le> 102 then Some (n - 87)
         else None)"

fun unhexlify :: "string \<Rightarrow> 8 word list option" where
  \<comment> \<open>\<open>binascii.unhexlify\<close>: None when it raises (odd length, or a character that is no hex digit)\<close>
  "unhexlify [] = Some []"
| "unhexlify [c] = None"
| "unhexlify (a # b # cs) =
     (case hex_val a of
        None \<Rightarrow> None
      | Some x \<Rightarrow>
         (case hex_val b of
            None \<Rightarrow> None
          | Some y \<Rightarrow>
             (case unhexlify cs of
                None \<Rightarrow> None
              | Some bs \<Rightarrow> Some (of_nat (16 * x + y) # bs))))"

fun le_word :: "8 word list \<Rightarrow> 64 word" where
  \<comment> \<open>the bits \<open>struct.unpack('<d', bytes)\<close> reads: the first byte is the least significant\<close>
  "le_word [] = 0"
| "le_word (b # bs) = ucast b + 256 * le_word bs"

definition strip_0x :: "string \<Rightarrow> string" where
  "strip_0x s = (if take 2 s = ''0x'' \<or> take 2 s = ''0X'' then drop 2 s else s)"

definition specific_prefix :: string where
  "specific_prefix = ''E6100000010F''"

definition parse_binary :: "8 word list \<Rightarrow> (64 word \<times> 64 word) option" where
  \<comment> \<open>the second \<open>try\<close> block: bytes 6 to 13 are the latitude, bytes 14 to 21 the longitude\<close>
  "parse_binary binary_data =
     (if length binary_data < 22 then None
      else let lat_bytes = take 8 (drop 6 binary_data);
               lon_bytes = take 8 (drop 14 binary_data)
           in if length lon_bytes \<noteq> 8 \<or> length lat_bytes \<noteq> 8 then None
              else Some (le_word lat_bytes, le_word lon_bytes))"

definition extract_lat_lon_from_wkb :: "pyval \<Rightarrow> (64 word \<times> 64 word) option" where
  "extract_lat_lon_from_wkb wkb_data =
     (case wkb_data of
        PBytes bs \<Rightarrow> parse_binary bs
      | PStr s \<Rightarrow>
          (let s' = strip_0x s
           in if take (length specific_prefix) s' \<noteq> specific_prefix then None
              else if length s' < 76 then None
              else (case unhexlify s' of
                      None \<Rightarrow> None
                    | Some binary_data \<Rightarrow> parse_binary binary_data))
      | _ \<Rightarrow> None)"

subsection \<open>CustomLogic.process\_columns, branch "clients", lines 192 to 205\<close>

definition set_coordinates :: "pyval \<Rightarrow> pyval \<Rightarrow> row \<Rightarrow> row" where
  "set_coordinates lat lon row_data =
     dict_set (dict_set (dict_set (dict_set row_data
       ''latitude'' lat) ''approved_latitude'' lat) ''longitude'' lon) ''approved_longitude'' lon"

definition clients_geography :: "row \<Rightarrow> row \<Rightarrow> py_error + row" where
  \<comment> \<open>\<open>lat, lon = extract_lat_lon_from_wkb(...)\<close> raises TypeError when the decoder returns None\<close>
  "clients_geography source_row row_data =
     (if truthy (dict_get source_row ''home_geography'')
      then (case extract_lat_lon_from_wkb (dict_get source_row ''home_geography'') of
              None \<Rightarrow> Inl TypeError
            | Some (lat, lon) \<Rightarrow> Inr (set_coordinates (PDouble lat) (PDouble lon) row_data))
      else Inr (set_coordinates (PFloat 0) (PFloat 0) row_data))"

definition clients_transformer ::
  "(row \<Rightarrow> row \<Rightarrow> py_error + row) \<Rightarrow> (row \<Rightarrow> py_error + row)
     \<Rightarrow> row \<Rightarrow> row \<Rightarrow> migration \<Rightarrow> (py_error + row) \<times> migration" where
  \<comment> \<open>the "clients" branch around the coordinates: \<open>before\<close> stands for the statements up to
      the birthplace, \<open>after\<close> for the defaults that follow; neither part catches an
      exception of the coordinates\<close>
  "clients_transformer before after row_data source_row st =
     (and_then (before source_row row_data) (\<lambda>r1.
      and_then (clients_geography source_row r1) after), st)"

definition good_wkb :: string where
  \<comment> \<open>header, then the doubles 26.0, 31.0, 0.0, 0.0\<close>
  "good_wkb = ''0xE6100000010F'' @ ''0000000000003A40'' @ ''0000000000003F40''
               @ ''0000000000000000'' @ ''0000000000000000''"

definition bad_prefix_wkb :: string where
  "bad_prefix_wkb = ''0xE6100000010C'' @ ''0000000000003A40'' @ ''0000000000003F40''
               @ ''0000000000000000'' @ ''0000000000000000''"


section \<open>Proofs: the settlement replay\<close>

lemma tx_id_set_balances [simp]: "tx_id (set_balances b c r) = tx_id r"
  by (simp add: set_balances_def Let_def)

lemma tx_loan_id_set_balances [simp]: "tx_loan_id (set_balances b c r) = tx_loan_id r"
  by (simp add: set_balances_def Let_def)

lemma tx_type_set_balances [simp]:
  "tx_loan_transaction_type_id (set_balances b c r) = tx_loan_transaction_type_id r"
  by (simp add: set_balances_def Let_def)

lemma tx_id_apply_plan [simp]: "tx_id (apply_plan p r) = tx_id r"
  by (simp add: apply_plan_def split: option.splits)

lemma tx_loan_id_apply_plan [simp]: "tx_loan_id (apply_plan p r) = tx_loan_id r"
  by (simp add: apply_plan_def split: option.splits)

lemma plan_ids: "map fst (plan b txs) = map tx_id txs"
  by (induction txs arbitrary: b) (simp_all add: Let_def)

lemma apply_plan_miss: "tx_id r \<notin> tx_id ` set txs \<Longrightarrow> apply_plan (plan b txs) r = r"
proof -
  assume "tx_id r \<notin> tx_id ` set txs"
  then have "tx_id r \<notin> fst ` set (plan b txs)"
    using plan_ids [of b txs] by (metis image_set)
  then have "map_of (plan b txs) (tx_id r) = None"
    by (simp add: map_of_eq_None_iff)
  then show ?thesis by (simp add: apply_plan_def)
qed

lemma replay_as_map:
  "distinct (map tx_id txs) \<Longrightarrow> replay b txs table = map (apply_plan (plan b txs)) table"
proof (induction txs arbitrary: b table)
  case Nil
  show ?case by (simp add: apply_plan_def)
next
  case (Cons tx txs)
  let ?b = "update_balances b tx"
  have d: "distinct (map tx_id txs)" and n: "tx_id tx \<notin> tx_id ` set txs"
    using Cons.prems by auto
  have step: "apply_plan (plan ?b txs) (if tx_id r = tx_id tx then set_balances ?b (clear_repaid tx) r else r)
      = apply_plan (plan b (tx # txs)) r" for r
  proof (cases "tx_id r = tx_id tx")
    case True
    then have "tx_id (set_balances ?b (clear_repaid tx) r) \<notin> tx_id ` set txs" using n by simp
    then show ?thesis using True
      by (simp add: apply_plan_miss) (simp add: apply_plan_def Let_def)
  next
    case False
    then show ?thesis by (simp add: apply_plan_def Let_def)
  qed
  show ?case
    using Cons.IH [OF d, of ?b] step
    by (simp add: Let_def update_where_id_def comp_def)
qed

lemma insort_key_map:
  assumes "\<And>y. k (f y) = k y"
  shows "insort_key k (f x) (map f xs) = map f (insort_key k x xs)"
  using assms by (induction xs) simp_all

lemma sort_key_map:
  assumes "\<And>y. k (f y) = k y"
  shows "sort_key k (map f xs) = map f (sort_key k xs)"
  using assms by (induction xs) (simp_all add: insort_key_map)

lemma fetch_map:
  assumes "\<And>y. tx_id (f y) = tx_id y" and "\<And>y. tx_loan_id (f y) = tx_loan_id y"
  shows "fetch_transactions (map f table) l = map f (fetch_transactions table l)"
  using assms by (simp add: fetch_transactions_def filter_map comp_def sort_key_map)

lemma distinct_map_sort_key:
  "distinct (map k (sort_key k xs)) = distinct (map k xs)"
proof -
  have "set (map k (sort_key k xs)) = set (map k xs)" by simp
  moreover have "length (map k (sort_key k xs)) = length (map k xs)" by simp
  ultimately show ?thesis by (metis card_distinct distinct_card)
qed

lemma distinct_fetch:
  "distinct (map tx_id table) \<Longrightarrow> distinct (map tx_id (fetch_transactions table l))"
  by (simp add: fetch_transactions_def distinct_map_sort_key distinct_map_filter)

lemma set_fetch: "set (fetch_transactions table l) = {r \<in> set table. tx_loan_id r = Some l}"
  by (auto simp: fetch_transactions_def)

lemma settle_loan_as_map:
  "distinct (map tx_id table) \<Longrightarrow>
   settle_loan table l = map (apply_plan (plan initial_balances (fetch_transactions table l))) table"
  by (simp add: settle_loan_def replay_as_map distinct_fetch)

lemma map_of_plan:
  "distinct (map tx_id txs) \<Longrightarrow> k < length txs \<Longrightarrow>
   map_of (plan b txs) (tx_id (txs ! k))
     = Some (foldl update_balances b (take (Suc k) txs), clear_repaid (txs ! k))"
proof (induction txs arbitrary: b k)
  case Nil
  then show ?case by simp
next
  case (Cons tx txs)
  show ?case
  proof (cases k)
    case 0
    then show ?thesis by (simp add: Let_def)
  next
    case (Suc j)
    then have "txs ! j \<in> set txs" using Cons.prems by simp
    then have "tx_id (txs ! j) \<noteq> tx_id tx" using Cons.prems by (metis distinct.simps(2) image_eqI list.simps(9) set_map)
    then show ?thesis using Suc Cons by (simp add: Let_def)
  qed
qed

lemma foldl_settle_loan:
  assumes "distinct (map tx_id table)" and "distinct ls"
  shows "foldl settle_loan table ls
    = map (\<lambda>r. case tx_loan_id r of None \<Rightarrow> r
              | Some l \<Rightarrow> if l \<in> set ls then settled_row table r else r) table"
  using assms(2)
proof (induction ls rule: rev_induct)
  case Nil
  have "map (\<lambda>r. case tx_loan_id r of None \<Rightarrow> r
              | Some l \<Rightarrow> if l \<in> set [] then settled_row table r else r) table = table"
    by (rule map_idI) (simp split: option.splits)
  then show ?case by simp
next
  case (snoc l ls)
  let ?g = "\<lambda>r. case tx_loan_id r of None \<Rightarrow> r
              | Some l \<Rightarrow> if l \<in> set ls then settled_row table r else r"
  let ?P = "plan initial_balances (fetch_transactions table l)"
  have dl: "distinct ls" and nl: "l \<notin> set ls" using snoc.prems by auto
  have IH: "foldl settle_loan table ls = map ?g table" using snoc.IH [OF dl] .
  have gid: "tx_id (?g y) = tx_id y" for y
    by (simp add: settled_row_def split: option.splits)
  have gloan: "tx_loan_id (?g y) = tx_loan_id y" for y
    by (simp add: settled_row_def split: option.splits)
  have d': "distinct (map tx_id (map ?g table))"
    using assms(1) gid by (simp add: comp_def)
  have "fetch_transactions (map ?g table) l = map ?g (fetch_transactions table l)"
    using gid gloan by (rule fetch_map)
  also have "\<dots> = fetch_transactions table l"
  proof -
    have "?g r = r" if "r \<in> set (fetch_transactions table l)" for r
      using that nl by (simp add: set_fetch)
    then show ?thesis by (simp add: map_idI)
  qed
  finally have f: "fetch_transactions (map ?g table) l = fetch_transactions table l" .
  have pt: "apply_plan ?P (?g r) = (case tx_loan_id r of None \<Rightarrow> r
              | Some l' \<Rightarrow> if l' \<in> set (ls @ [l]) then settled_row table r else r)"
    if r: "r \<in> set table" for r
  proof (cases "tx_loan_id r = Some l")
    case True
    then show ?thesis using nl by (simp add: settled_row_def)
  next
    case False
    have "tx_id r \<notin> tx_id ` set (fetch_transactions table l)"
    proof
      assume "tx_id r \<in> tx_id ` set (fetch_transactions table l)"
      then obtain r' where r': "r' \<in> set table" "tx_loan_id r' = Some l" "tx_id r' = tx_id r"
        by (auto simp: set_fetch)
      with assms(1) r have "r' = r" by (metis distinct_map inj_onD)
      with r' False show False by simp
    qed
    then have "tx_id (?g r) \<notin> tx_id ` set (fetch_transactions table l)"
      using gid by simp
    then have "apply_plan ?P (?g r) = ?g r" by (rule apply_plan_miss)
    then show ?thesis using False by (auto split: option.splits)
  qed
  have "foldl settle_loan table (ls @ [l]) = settle_loan (map ?g table) l"
    using IH by simp
  also have "\<dots> = map (apply_plan ?P) (map ?g table)"
    using settle_loan_as_map [OF d', of l] f by simp
  also have "\<dots> = map (\<lambda>r. case tx_loan_id r of None \<Rightarrow> r
              | Some l' \<Rightarrow> if l' \<in> set (ls @ [l]) then settled_row table r else r) table"
    using pt by (simp add: comp_def)
  finally show ?case .
qed

lemma settle_table_as_map:
  assumes "distinct (map tx_id table)"
  shows "settle_table table = map (settled_row table) table"
proof -
  have "foldl settle_loan table (loan_ids_with_transactions table)
    = map (\<lambda>r. case tx_loan_id r of None \<Rightarrow> r
              | Some l \<Rightarrow> if l \<in> set (loan_ids_with_transactions table) then settled_row table r else r) table"
    using assms by (rule foldl_settle_loan) (simp add: loan_ids_with_transactions_def)
  also have "\<dots> = map (settled_row table) table"
  proof (rule map_cong [OF refl])
    fix r assume r: "r \<in> set table"
    show "(case tx_loan_id r of None \<Rightarrow> r
              | Some l \<Rightarrow> if l \<in> set (loan_ids_with_transactions table) then settled_row table r else r)
      = settled_row table r"
    proof (cases "tx_loan_id r")
      case None
      then show ?thesis by (simp add: settled_row_def)
    next
      case (Some l)
      then have "l \<in> set (loan_ids_with_transactions table)"
        using r by (force simp: loan_ids_with_transactions_def List.map_filter_def)
      then show ?thesis using Some by simp
    qed
  qed
  finally show ?thesis by (simp add: settle_table_def)
qed

lemma update_balances_set_balances:
  assumes "tx_loan_transaction_type_id r = Some 1 \<longrightarrow>
        or_zero (tx_principal_repaid_derived r) = 0 \<and> or_zero (tx_interest_repaid_derived r) = 0"
  shows "update_balances b (set_balances b' (clear_repaid r) r) = update_balances b r"
  using assms
  by (simp add: update_balances_def set_balances_def clear_repaid_def Let_def or_zero_def)

lemma clear_repaid_set_balances [simp]: "clear_repaid (set_balances b c r) = clear_repaid r"
  by (simp add: clear_repaid_def)

lemma set_balances_idem: "set_balances b c (set_balances b c r) = set_balances b c r"
  by (simp add: set_balances_def Let_def)

lemma apply_plan_idem: "apply_plan p (apply_plan p r) = apply_plan p r"
  by (simp add: apply_plan_def set_balances_idem split: option.splits prod.splits)

lemma plan_map:
  assumes "\<And>r. r \<in> set txs \<Longrightarrow> tx_id (g r) = tx_id r \<and> clear_repaid (g r) = clear_repaid r
            \<and> (\<forall>b. update_balances b (g r) = update_balances b r)"
  shows "plan b (map g txs) = plan b txs"
  using assms by (induction txs arbitrary: b) (simp_all add: Let_def)

lemma apply_plan_member:
  assumes "distinct (map tx_id txs)" and "r \<in> set txs"
  shows "\<exists>b'. apply_plan (plan b txs) r = set_balances b' (clear_repaid r) r"
proof -
  from assms(2) obtain k where k: "k < length txs" "txs ! k = r"
    by (auto simp: in_set_conv_nth)
  from map_of_plan [OF assms(1) k(1), of b] k(2)
  show ?thesis by (auto simp: apply_plan_def)
qed

lemma plan_after_settle:
  assumes d: "distinct (map tx_id table)" and h: "disbursements_carry_no_repaid table"
  shows "plan b (fetch_transactions (map (settled_row table) table) l)
       = plan b (fetch_transactions table l)"
proof -
  let ?txs = "fetch_transactions table l"
  have "fetch_transactions (map (settled_row table) table) l = map (settled_row table) ?txs"
    by (rule fetch_map) (simp_all add: settled_row_def split: option.splits)
  moreover have "plan b (map (settled_row table) ?txs) = plan b ?txs"
  proof (rule plan_map)
    fix r assume r: "r \<in> set ?txs"
    then have rl: "tx_loan_id r = Some l" and rt: "r \<in> set table" by (simp_all add: set_fetch)
    from apply_plan_member [OF distinct_fetch [OF d] r]
    obtain b' where "apply_plan (plan initial_balances ?txs) r = set_balances b' (clear_repaid r) r"
      by blast
    then have s: "settled_row table r = set_balances b' (clear_repaid r) r"
      using rl by (simp add: settled_row_def)
    have "tx_loan_transaction_type_id r = Some 1 \<longrightarrow>
        or_zero (tx_principal_repaid_derived r) = 0 \<and> or_zero (tx_interest_repaid_derived r) = 0"
      using h rt by (simp add: disbursements_carry_no_repaid_def)
    then show "tx_id (settled_row table r) = tx_id r
        \<and> clear_repaid (settled_row table r) = clear_repaid r
        \<and> (\<forall>b. update_balances b (settled_row table r) = update_balances b r)"
      using s by (simp add: update_balances_set_balances)
  qed
  ultimately show ?thesis by simp
qed

lemma settle_table_twice:
  assumes d: "distinct (map tx_id table)" and h: "disbursements_carry_no_repaid table"
  shows "settle_table (settle_table table) = settle_table table"
proof -
  let ?T = "map (settled_row table) table"
  have "tx_id (settled_row table x) = tx_id x" for x
    by (simp add: settled_row_def split: option.splits)
  then have d': "distinct (map tx_id ?T)"
    using d by (simp add: comp_def)
  have same: "settled_row ?T x = settled_row table x" for x
    using plan_after_settle [OF d h] by (simp add: settled_row_def split: option.splits)
  have idem: "settled_row table (settled_row table x) = settled_row table x" for x
    by (simp add: settled_row_def apply_plan_idem split: option.splits)
  have "settle_table (settle_table table) = map (settled_row ?T) ?T"
    using settle_table_as_map [OF d] settle_table_as_map [OF d'] by simp
  also have "\<dots> = ?T" using same idem by (simp add: comp_def)
  finally show ?thesis using settle_table_as_map [OF d] by simp
qed

lemma filter_by_key:
  "distinct (map f xs) \<Longrightarrow> x \<in> set xs \<Longrightarrow> filter (\<lambda>r. f r = f x) xs = [x]"
proof (induction xs)
  case Nil
  then show ?case by simp
next
  case (Cons a xs)
  show ?case
  proof (cases "a = x")
    case True
    have "f x \<notin> f ` set xs" using Cons.prems True by simp
    then have "\<forall>r \<in> set xs. f r \<noteq> f x" by (metis imageI)
    then have "filter (\<lambda>r. f r = f x) xs = []"
      by (simp add: filter_empty_conv)
    then show ?thesis using True by simp
  next
    case False
    then have "x \<in> set xs" using Cons.prems by simp
    moreover have "f a \<notin> f ` set xs" using Cons.prems by simp
    ultimately have "f a \<noteq> f x" by (metis imageI)
    then show ?thesis using Cons \<open>x \<in> set xs\<close> by simp
  qed
qed

section \<open>Proofs: connections and the early-settlement engine\<close>

lemma settle_loans_pending:
  "loan_transactions (pending (settle_loans i ls c)) = foldl settle_loan (loan_transactions (pending c)) ls"
  by (induction ls arbitrary: i c) (simp_all add: Let_def commit_def)

lemma settle_transactions_pending:
  "loan_transactions (pending (settle_transactions c)) = settle_table (loan_transactions (pending c))"
  by (simp add: settle_transactions_def settle_table_def settle_loans_pending Let_def commit_def)

lemma settle_transactions_committed:
  "loan_ids_with_transactions (loan_transactions (pending c)) \<noteq> [] \<Longrightarrow>
   committed (settle_transactions c) = pending (settle_transactions c)"
  by (simp add: settle_transactions_def Let_def commit_def)

lemma early_settlement_raise_rolls_back:
  assumes "fst (handle_early_settlement fault today c loan_id) = Inl e"
  shows "committed (snd (handle_early_settlement fault today c loan_id)) = committed c
       \<and> pending (snd (handle_early_settlement fault today c loan_id)) = committed c"
  using assms
  by (auto simp: handle_early_settlement_def rollback_def commit_def
      split: sum.splits prod.splits outcome.splits)

lemma early_settlement_completed_commits:
  assumes "fst (handle_early_settlement fault today c loan_id) = Inr Completed"
  shows "committed (snd (handle_early_settlement fault today c loan_id))
       = pending (snd (handle_early_settlement fault today c loan_id))"
  using assms
  by (auto simp: handle_early_settlement_def rollback_def commit_def
      split: sum.splits prod.splits outcome.splits)

lemma early_settlement_abort_keeps_committed:
  assumes "fst (handle_early_settlement fault today c loan_id) = Inr r" and "r \<noteq> Completed"
  shows "committed (snd (handle_early_settlement fault today c loan_id)) = committed c"
  using assms
  by (auto simp: handle_early_settlement_def rollback_def commit_def
      split: sum.splits prod.splits outcome.splits)
section \<open>Properties of the binary64 model\<close>






















section \<open>Proofs: rows and the row transformer\<close>

lemma map_of_dict_set:
  "map_of (dict_set r k v) k' = (if k' = k then Some v else map_of r k')"
  by (simp add: dict_set_def update_conv')

lemma dict_get_default_dict_set [simp]:
  "k' \<noteq> k \<Longrightarrow> dict_get_default (dict_set r k v) k' d = dict_get_default r k' d"
  by (simp add: dict_get_default_def map_of_dict_set)

lemma dict_item_dict_set [simp]:
  "k' \<noteq> k \<Longrightarrow> dict_item (dict_set r k v) k' = dict_item r k'"
  by (simp add: dict_item_def map_of_dict_set)

lemma and_then_Inr_iff:
  "and_then m f = Inr y \<longleftrightarrow> (\<exists>x. m = Inr x \<and> f x = Inr y)"
  by (cases m) (simp_all add: and_then_def)

lemma and_then_InrE:
  assumes "and_then m f = Inr y"
  obtains x where "m = Inr x" and "f x = Inr y"
  using assms by (cases m) (simp_all add: and_then_def)

lemma has_key_dict_get:
  "map_of r k = Some v \<Longrightarrow> has_key r k \<and> dict_get r k = v"
  by (simp add: has_key_def dict_get_def)

lemma advance_one_month_clamped:
  assumes v: "valid_date d" and y9: "\<not> (year d = 9999 \<and> month d = 12)"
  shows "\<exists>a. advance_one_month d = Inr a
       \<and> (case a of Replaced d' \<Rightarrow> d' | LastDay d' \<Rightarrow> d') = add_month_clamped d"
proof -
  define m where "m = (if 12 < month d + 1 then 1 else month d + 1)"
  define y where "y = (if 12 < month d + 1 then year d + 1 else year d)"
  have adv: "advance_one_month d =
     (case date_replace d y m of
           Inr d' \<Rightarrow> Inr (Replaced d')
         | Inl e \<Rightarrow>
             (if m = 12
              then and_then (mk_date (y + 1) 1 1) (\<lambda>f.
                   and_then (minus_one_day f) (\<lambda>d. Inr (LastDay d)))
              else and_then (mk_date y (m + 1) 1) (\<lambda>f.
                   and_then (minus_one_day f) (\<lambda>d. Inr (LastDay d)))))"
    unfolding advance_one_month_def Let_def m_def y_def ..
  have clamp: "add_month_clamped d = \<lparr>year = y, month = m, day = min (day d) (days_in_month y m)\<rparr>"
    using v by (auto simp: add_month_clamped_def Let_def m_def y_def valid_date_def)
  have m: "1 \<le> m" "m \<le> 12" and yy: "1 \<le> y" "y \<le> 9999"
    using v y9 by (auto simp: valid_date_def m_def y_def)
  have d31: "1 \<le> day d" "day d \<le> 31"
    using v by (auto simp: valid_date_def days_in_month_def split: if_splits)
  show ?thesis
  proof (cases "day d \<le> days_in_month y m")
    case True
    then have "date_replace d y m = Inr \<lparr>year = y, month = m, day = day d\<rparr>"
      using m yy d31 by (simp add: date_replace_def mk_date_def valid_date_def Let_def)
    then show ?thesis
      using True by (simp add: adv clamp min_def)
  next
    case False
    then have r: "date_replace d y m = Inl ValueError"
      by (simp add: date_replace_def mk_date_def valid_date_def Let_def)
    from False d31 have short: "m = 2 \<or> m = 4 \<or> m = 6 \<or> m = 9 \<or> m = 11"
      by (auto simp: days_in_month_def split: if_splits)
    then have n12: "m \<noteq> 12" and m1: "1 \<le> m + 1" "m + 1 \<le> 12" by auto
    have f: "mk_date y (m + 1) 1 = Inr \<lparr>year = y, month = m + 1, day = 1\<rparr>"
      using yy m1 by (simp add: mk_date_def valid_date_def Let_def days_in_month_def)
    have l: "minus_one_day \<lparr>year = y, month = m + 1, day = 1\<rparr>
        = Inr \<lparr>year = y, month = m, day = days_in_month y m\<rparr>"
      using m by (simp add: minus_one_day_def)
    have "advance_one_month d = Inr (LastDay \<lparr>year = y, month = m, day = days_in_month y m\<rparr>)"
      using r n12 f l by (simp add: adv and_then_def)
    then show ?thesis
      using False by (simp add: clamp min_def)
  qed
qed

lemma first_payment_date_advanced:
  assumes "map_of row_data ''disbursed_on_date'' = Some v"
    and "v = PDate d \<or> v = PDateTime d s"
    and "valid_date d" and "\<not> (year d = 9999 \<and> month d = 12)"
  shows "\<exists>w. set_first_payment_date row_data = Inr (dict_set row_data ''first_payment_date'' w)
       \<and> date_of w = Some (add_month_clamped d)"
proof -
  from advance_one_month_clamped [OF assms(3,4)] obtain a where
    a: "advance_one_month d = Inr a"
    and c: "(case a of Replaced d' \<Rightarrow> d' | LastDay d' \<Rightarrow> d') = add_month_clamped d"
    by blast
  from assms(1) have k: "has_key row_data ''disbursed_on_date''" "dict_get row_data ''disbursed_on_date'' = v"
    by (simp_all add: has_key_dict_get)
  from assms(2) show ?thesis
  proof
    assume "v = PDate d"
    then show ?thesis using k a c
      by (cases a) (fastforce simp: set_first_payment_date_def truthy_def and_then_def date_of_def)+
  next
    assume "v = PDateTime d s"
    then show ?thesis using k a c
      by (cases a) (fastforce simp: set_first_payment_date_def truthy_def and_then_def date_of_def)+
  qed
qed

lemma no_disbursed_date_keeps_row:
  "map_of row_data ''disbursed_on_date'' = None \<or> map_of row_data ''disbursed_on_date'' = Some PNone
   \<Longrightarrow> set_first_payment_date row_data = Inr row_data"
  by (auto simp: set_first_payment_date_def has_key_def dict_get_def truthy_def)

lemma neg_le_0: "neg v \<le> 0"
  by (simp add: neg_def)

lemma dict_item_Inr: "dict_item r k = Inr x \<longleftrightarrow> map_of r k = Some x"
  by (simp add: dict_item_def split: option.splits)

lemma dict_get_Some: "map_of r k = Some x \<Longrightarrow> dict_get r k = x"
  by (simp add: dict_get_def)

lemma split_amount_Inr:
  assumes "split_amount r = Inr r'"
  shows "\<exists>a x i y p. map_of r' ''amount'' = Some (PFloat a)
     \<and> map_of r' ''interest_repaid_derived'' = Some x \<and> py_float x = Inr i
     \<and> map_of r' ''penalties_repaid_derived'' = Some y \<and> py_float y = Inr p"
  using assms unfolding split_amount_def Let_def
  apply (elim and_then_InrE)
  apply (clarsimp simp: dict_item_Inr map_of_dict_set)
  done

lemma make_negative_Inr:
  assumes "map_of r k = Some x" and "py_float x = Inr v"
  shows "\<exists>r' x'. make_negative k r = Inr r' \<and> map_of r' k = Some x' \<and> py_float x' = Inr (neg v)
      \<and> (\<forall>k'. k' \<noteq> k \<longrightarrow> map_of r' k' = map_of r k')"
  using assms
  by (auto simp: make_negative_def and_then_def dict_item_def map_of_dict_set neg_def py_float_def)

lemma cancellation_flip_Inr:
  assumes a: "map_of r ''amount'' = Some xa" "py_float xa = Inr a"
    and i: "map_of r ''interest_repaid_derived'' = Some xi" "py_float xi = Inr i"
    and p: "map_of r ''penalties_repaid_derived'' = Some xp" "py_float xp = Inr p"
  shows "\<exists>r' xa' xi' xp'. cancellation_flip r = Inr r'
     \<and> map_of r' ''amount'' = Some xa' \<and> py_float xa' = Inr (neg a)
     \<and> map_of r' ''interest_repaid_derived'' = Some xi' \<and> py_float xi' = Inr (neg i)
     \<and> map_of r' ''penalties_repaid_derived'' = Some xp' \<and> py_float xp' = Inr (neg p)
     \<and> map_of r' ''principal_repaid_derived'' = Some (PFloat (neg a - neg i))"
proof -
  from make_negative_Inr [OF a] obtain r1 xa' where
    r1: "make_negative ''amount'' r = Inr r1" "map_of r1 ''amount'' = Some xa'"
      "py_float xa' = Inr (neg a)" "\<forall>k'. k' \<noteq> ''amount'' \<longrightarrow> map_of r1 k' = map_of r k'"
    by blast
  have i1: "map_of r1 ''interest_repaid_derived'' = Some xi" using r1(4) i(1) by simp
  from make_negative_Inr [OF i1 i(2)] obtain r2 xi' where
    r2: "make_negative ''interest_repaid_derived'' r1 = Inr r2"
      "map_of r2 ''interest_repaid_derived'' = Some xi'" "py_float xi' = Inr (neg i)"
      "\<forall>k'. k' \<noteq> ''interest_repaid_derived'' \<longrightarrow> map_of r2 k' = map_of r1 k'"
    by blast
  have p2: "map_of r2 ''penalties_repaid_derived'' = Some xp" using r2(4) r1(4) p(1) by simp
  from make_negative_Inr [OF p2 p(2)] obtain r3 xp' where
    r3: "make_negative ''penalties_repaid_derived'' r2 = Inr r3"
      "map_of r3 ''penalties_repaid_derived'' = Some xp'" "py_float xp' = Inr (neg p)"
      "\<forall>k'. k' \<noteq> ''penalties_repaid_derived'' \<longrightarrow> map_of r3 k' = map_of r2 k'"
    by blast
  have a3: "map_of r3 ''amount'' = Some xa'" using r3(4) r2(4) r1(2) by simp
  have i3: "map_of r3 ''interest_repaid_derived'' = Some xi'" using r3(4) r2(2) by simp
  have rc: "recalculate_principal r3
      = Inr (dict_set r3 ''principal_repaid_derived'' (PFloat (neg a - neg i)))"
    using a3 i3 r1(3) r2(3)
    by (simp add: recalculate_principal_def and_then_def dict_item_def)
  have "cancellation_flip r = Inr (dict_set r3 ''principal_repaid_derived'' (PFloat (neg a - neg i)))"
    using r1(1) r2(1) r3(1) rc by (simp add: cancellation_flip_def and_then_def)
  then show ?thesis
    using a3 i3 r3(2) r1(3) r2(3) r3(3) by (simp add: map_of_dict_set)
qed

lemma set_type_and_sides_Inr:
  assumes "set_type_and_sides t r = Inr r'"
    and "k \<noteq> ''loan_transaction_type_id''" and "k \<noteq> ''debit''" and "k \<noteq> ''credit''"
  shows "map_of r' k = map_of r k"
  using assms unfolding set_type_and_sides_def Let_def
  by (elim and_then_InrE) (auto simp: map_of_dict_set split: if_splits)

lemma map_of_trans_type_mapping:
  "code \<in> cancellation_types \<Longrightarrow> \<exists>t. map_of trans_type_mapping code = Some t"
  by (auto simp: cancellation_types_def trans_type_mapping_def)

lemmas tx_eval = cancellation_rows_def build_rows_def example_mapping_def cancellation_record_def
  process_transactions_def resolve_loan_def common_lookups_def coalesce_zero_def
  convert_trans_type_def side_channel_def try_insert_def insert_record_def accept_all_def
  penalties_tx_data_def fees_tx_data_def make_non_negative_def set_timestamps_def add_one_hour_def
  split_amount_def finish_transaction_def skip_transaction_def cancellation_flip_def make_negative_def
  recalculate_principal_def set_type_and_sides_def trans_type_mapping_def cancellation_types_def
  example_lookup_def example_now_def new_migration_def dict_set_def dict_get_def
  dict_get_default_def dict_item_def has_key_def truthy_def py_float_def py_int_def and_then_def
  Let_def

lemmas drv_eval = migrate_transactions_def migrate_record_def count_skip_def known_columns_def
  loan_transactions_columns_def unmapped_record_def unmapped_record_with_penalty_def

lemma extract_failures:
  "take (length specific_prefix) (strip_0x s) \<noteq> specific_prefix \<Longrightarrow> extract_lat_lon_from_wkb (PStr s) = None"
  "length (strip_0x s) < 76 \<Longrightarrow> extract_lat_lon_from_wkb (PStr s) = None"
  "unhexlify (strip_0x s) = None \<Longrightarrow> extract_lat_lon_from_wkb (PStr s) = None"
  "length bs < 22 \<Longrightarrow> extract_lat_lon_from_wkb (PBytes bs) = None"
  by (simp_all add: extract_lat_lon_from_wkb_def parse_binary_def Let_def)


lemma geography_raises_for_any_row:
  assumes "truthy (dict_get source_row ''home_geography'')"
    and "extract_lat_lon_from_wkb (dict_get source_row ''home_geography'') = None"
  shows "clients_geography source_row r = Inl TypeError"
  using assms by (simp add: clients_geography_def)

lemma clients_transformer_fails:
  assumes "truthy (dict_get source_row ''home_geography'')"
    and "extract_lat_lon_from_wkb (dict_get source_row ''home_geography'') = None"
  shows "\<exists>e. clients_transformer before after row_data source_row st = (Inl e, st)"
proof (cases "before source_row row_data")
  case (Inl e)
  then show ?thesis by (simp add: clients_transformer_def and_then_def)
next
  case (Inr r1)
  then show ?thesis
    using geography_raises_for_any_row [OF assms, of r1]
    by (simp add: clients_transformer_def and_then_def)
qed


section \<open>Claims\<close>

text \<open>
  C9 (governorate extraction). The claim: an id whose text is not 14 characters long gives
  null; a 14-character id gives 1 for the code "88", the integer value of the two digits at
  positions 8 and 9 otherwise, and null when those two characters are not digits.
  The code hands the two characters to \<open>int()\<close>, which also accepts a sign or white space
  next to a digit: for the 14-character id \<open>1234567-512345\<close> the characters at positions
  8 and 9 are \<open>-5\<close>, not two digits, and the function returns \<open>-5\<close> instead of null.
\<close>

theorem governorate_of_signed_code:
  "get_governorate_from_national_id (NidText ''1234567-512345'') = Some (- 5)"
  by code_simp

theorem governorate_of_signed_code_witness:
  "length ''1234567-512345'' = 14 \<and> take 2 (drop 7 ''1234567-512345'') = ''-5''
   \<and> \<not> is_digit (CHR ''-'')
   \<and> get_governorate_from_national_id (NidText ''1234567-512345'') \<noteq> None"
  using governorate_of_signed_code by (simp add: is_digit_def)

text \<open>
  C3 (settlement replay per type). For a table with unique ids, take the transactions of one
  loan in id order and the running balances \<open>b\<close> before the \<open>k\<close>-th of them. The step gives
  \<open>b'\<close>: type 10 adds the amount to the penalties balance; type 1 sets the principal and
  interest balances to the row's own repaid fields; types 2 and 6 subtract the row's
  principal, interest and penalties repaid fields; any other type leaves the balances as they
  are. After the run exactly one row carries that id, and its four balance columns hold
  \<open>b'\<close> and the sum of its three balances.
\<close>

theorem settlement_replay_per_type:
  assumes "distinct (map tx_id table)"
    and "k < length (fetch_transactions table loan_id)"
  shows "let transactions = fetch_transactions table loan_id;
             tx = transactions ! k;
             tx_type = tx_loan_transaction_type_id tx;
             b = foldl update_balances initial_balances (take k transactions);
             b' = update_balances b tx
         in (tx_type = Some 10 \<longrightarrow>
               b' = b\<lparr>penalties_balance := penalties_balance b + or_zero (tx_amount tx)\<rparr>)
          \<and> (tx_type = Some 1 \<longrightarrow>
               b' = b\<lparr>principal_balance := or_zero (tx_principal_repaid_derived tx),
                      interest_balance := or_zero (tx_interest_repaid_derived tx)\<rparr>)
          \<and> (tx_type = Some 2 \<or> tx_type = Some 6 \<longrightarrow>
               b' = b\<lparr>principal_balance := principal_balance b - or_zero (tx_principal_repaid_derived tx),
                      interest_balance := interest_balance b - or_zero (tx_interest_repaid_derived tx),
                      penalties_balance := penalties_balance b - or_zero (tx_penalties_repaid_derived tx)\<rparr>)
          \<and> (tx_type \<noteq> Some 10 \<and> tx_type \<noteq> Some 1 \<and> tx_type \<noteq> Some 2 \<and> tx_type \<noteq> Some 6 \<longrightarrow> b' = b)
          \<and> (\<exists>r. filter (\<lambda>r. tx_id r = tx_id tx) (settle_loan table loan_id) = [r]
                \<and> tx_principal_balance r = Some (principal_balance b')
                \<and> tx_interest_balance r = Some (interest_balance b')
                \<and> tx_penalties_balance r = Some (penalties_balance b')
                \<and> tx_total_balance r
                    = Some (principal_balance b' + interest_balance b' + penalties_balance b'))"
proof -
  let ?txs = "fetch_transactions table loan_id"
  let ?tx = "?txs ! k"
  let ?b = "foldl update_balances initial_balances (take k ?txs)"
  let ?b' = "update_balances ?b ?tx"
  let ?P = "plan initial_balances ?txs"
  have dt: "distinct (map tx_id ?txs)" using assms(1) by (rule distinct_fetch)
  have mem: "?tx \<in> set table"
    using assms(2) nth_mem [of k ?txs] by (simp add: set_fetch)
  have b': "foldl update_balances initial_balances (take (Suc k) ?txs) = ?b'"
    using assms(2) by (simp add: take_Suc_conv_app_nth)
  have ap: "apply_plan ?P ?tx = set_balances ?b' (clear_repaid ?tx) ?tx"
    using map_of_plan [OF dt assms(2), of initial_balances] b' by (simp add: apply_plan_def)
  have "filter (\<lambda>r. tx_id r = tx_id ?tx) (settle_loan table loan_id)
      = map (apply_plan ?P) (filter (\<lambda>r. tx_id r = tx_id ?tx) table)"
    using settle_loan_as_map [OF assms(1), of loan_id] by (simp add: filter_map comp_def)
  also have "\<dots> = [set_balances ?b' (clear_repaid ?tx) ?tx]"
    using filter_by_key [OF assms(1) mem] ap by simp
  finally have w: "filter (\<lambda>r. tx_id r = tx_id ?tx) (settle_loan table loan_id)
      = [set_balances ?b' (clear_repaid ?tx) ?tx]" .
  have cols: "tx_principal_balance (set_balances ?b' c ?tx) = Some (principal_balance ?b')
      \<and> tx_interest_balance (set_balances ?b' c ?tx) = Some (interest_balance ?b')
      \<and> tx_penalties_balance (set_balances ?b' c ?tx) = Some (penalties_balance ?b')
      \<and> tx_total_balance (set_balances ?b' c ?tx)
          = Some (principal_balance ?b' + interest_balance ?b' + penalties_balance ?b')" for c
    by (simp add: set_balances_def total_of_def Let_def)
  have cases: "(tx_loan_transaction_type_id ?tx = Some 10 \<longrightarrow>
               ?b' = ?b\<lparr>penalties_balance := penalties_balance ?b + or_zero (tx_amount ?tx)\<rparr>)
          \<and> (tx_loan_transaction_type_id ?tx = Some 1 \<longrightarrow>
               ?b' = ?b\<lparr>principal_balance := or_zero (tx_principal_repaid_derived ?tx),
                      interest_balance := or_zero (tx_interest_repaid_derived ?tx)\<rparr>)
          \<and> (tx_loan_transaction_type_id ?tx = Some 2 \<or> tx_loan_transaction_type_id ?tx = Some 6 \<longrightarrow>
               ?b' = ?b\<lparr>principal_balance := principal_balance ?b - or_zero (tx_principal_repaid_derived ?tx),
                      interest_balance := interest_balance ?b - or_zero (tx_interest_repaid_derived ?tx),
                      penalties_balance := penalties_balance ?b - or_zero (tx_penalties_repaid_derived ?tx)\<rparr>)
          \<and> (tx_loan_transaction_type_id ?tx \<noteq> Some 10 \<and> tx_loan_transaction_type_id ?tx \<noteq> Some 1
              \<and> tx_loan_transaction_type_id ?tx \<noteq> Some 2 \<and> tx_loan_transaction_type_id ?tx \<noteq> Some 6
              \<longrightarrow> ?b' = ?b)"
    by (simp add: update_balances_def Let_def)
  show ?thesis
    unfolding Let_def using cases w cols by blast
qed

theorem settlement_replay_per_type_witness:
  "distinct (map tx_id example_log) \<and> 2 < length (fetch_transactions example_log 7)
   \<and> (\<exists>r. filter (\<lambda>r. tx_id r = 4) (settle_loan example_log 7) = [r]
          \<and> tx_principal_balance r = Some 900 \<and> tx_interest_balance r = Some 180
          \<and> tx_penalties_balance r = Some 40 \<and> tx_total_balance r = Some 1120)"
proof -
  have h1: "distinct (map tx_id example_log)"
    by (simp add: example_log_def blank_tx_def)
  have f: "fetch_transactions example_log 7 = [example_log ! 0, example_log ! 2, example_log ! 3]"
    by (simp add: fetch_transactions_def example_log_def blank_tx_def)
  have h2: "2 < length (fetch_transactions example_log 7)"
    by (simp add: f)
  have b: "update_balances (foldl update_balances initial_balances
              (take 2 (fetch_transactions example_log 7))) (fetch_transactions example_log 7 ! 2)
      = \<lparr>principal_balance = 900, interest_balance = 180, penalties_balance = 40\<rparr>"
    unfolding f
    by (simp add: update_balances_def initial_balances_def or_zero_def example_log_def
        blank_tx_def Let_def)
  have i: "tx_id (fetch_transactions example_log 7 ! 2) = 4"
    unfolding f by (simp add: example_log_def blank_tx_def)
  from settlement_replay_per_type [OF h1 h2]
  obtain r where "filter (\<lambda>r. tx_id r = tx_id (fetch_transactions example_log 7 ! 2))
          (settle_loan example_log 7) = [r]"
    and "tx_principal_balance r = Some (principal_balance (update_balances
            (foldl update_balances initial_balances (take 2 (fetch_transactions example_log 7)))
            (fetch_transactions example_log 7 ! 2)))"
    and "tx_interest_balance r = Some (interest_balance (update_balances
            (foldl update_balances initial_balances (take 2 (fetch_transactions example_log 7)))
            (fetch_transactions example_log 7 ! 2)))"
    and "tx_penalties_balance r = Some (penalties_balance (update_balances
            (foldl update_balances initial_balances (take 2 (fetch_transactions example_log 7)))
            (fetch_transactions example_log 7 ! 2)))"
    and "tx_total_balance r = Some (
          principal_balance (update_balances
            (foldl update_balances initial_balances (take 2 (fetch_transactions example_log 7)))
            (fetch_transactions example_log 7 ! 2))
        + interest_balance (update_balances
            (foldl update_balances initial_balances (take 2 (fetch_transactions example_log 7)))
            (fetch_transactions example_log 7 ! 2))
        + penalties_balance (update_balances
            (foldl update_balances initial_balances (take 2 (fetch_transactions example_log 7)))
            (fetch_transactions example_log 7 ! 2)))"
    unfolding Let_def by blast
  then have "filter (\<lambda>r. tx_id r = 4) (settle_loan example_log 7) = [r]
          \<and> tx_principal_balance r = Some 900 \<and> tx_interest_balance r = Some 180
          \<and> tx_penalties_balance r = Some 40 \<and> tx_total_balance r = Some 1120"
    unfolding b i by simp
  then show ?thesis using h1 h2 by blast
qed

text \<open>
  C1 (settlement run twice). The claim: running the settlement twice over a loan's
  transactions writes the same four balance columns both times. It fails for a disbursement:
  the first run copies the row's principal and interest repaid fields into the balances and
  then sets those two fields to 0, so the second run reads 0 and writes balances of 0.
\<close>

theorem settle_twice_counterexample:
  "map balance_columns (settle_table (settle_table disbursement_log))
     \<noteq> map balance_columns (settle_table disbursement_log)"
  by code_simp

text \<open>
  C1, amended. For a table with unique ids in which no disbursement (type 1) row carries a
  non-zero principal or interest repaid field, a second run writes the same four balance
  columns on every row as the first.
\<close>

theorem settle_twice_same_balances:
  assumes "distinct (map tx_id table)" and "disbursements_carry_no_repaid table"
  shows "map balance_columns (settle_table (settle_table table))
       = map balance_columns (settle_table table)"
  using settle_table_twice [OF assms] by simp

theorem settle_twice_same_balances_witness:
  "distinct (map tx_id repayment_log) \<and> disbursements_carry_no_repaid repayment_log
   \<and> map balance_columns (settle_table (settle_table repayment_log))
       = map balance_columns (settle_table repayment_log)"
proof -
  have h1: "distinct (map tx_id repayment_log)"
    by (simp add: repayment_log_def blank_tx_def)
  have h2: "disbursements_carry_no_repaid repayment_log"
    by (simp add: disbursements_carry_no_repaid_def repayment_log_def blank_tx_def)
  show ?thesis
    using settle_twice_same_balances [OF h1 h2] h1 h2 by simp
qed

text \<open>
  C4 (early settlement leaves an unfinished loan unchanged). The claim: when handling a loan
  does not complete, by an exception or by the graceful abort for want of an unpaid
  installment, the loan's stored transactions and installments stay as they were. The
  exception path does roll back, but the graceful abort returns after the transactions booked
  on the last installment were deleted, without rolling back: the deletion stays pending and
  the commit that follows the run makes it durable. Loan 1 of \<open>paid_up_db\<close> has no unpaid
  installment and one transaction on its last installment; after the run that transaction is
  gone from the committed state.
\<close>

theorem aborted_loan_loses_transactions:
  "fst (handle_early_settlement None example_today (open_conn paid_up_db) 1)
     = Inr NoUnpaidInstallment
   \<and> map tx_id (loan_transactions (committed (open_conn paid_up_db))) = [1]
   \<and> loan_transactions (pending (snd
         (handle_early_settlement None example_today (open_conn paid_up_db) 1))) = []
   \<and> loan_transactions (committed
         (settle_installments_action (\<lambda>l. None) example_today [1] (open_conn paid_up_db))) = []"
  by code_simp

text \<open>
  C5 (early settlement invariants). The claim: for a loan with an unpaid installment, after
  the engine completes the term is one less, the last installment is removed, the first
  unpaid installment is marked \<open>is_early_repayment\<close> and carries the fee, and the loan is
  closed. The engine looks for the first unpaid installment before it deletes the last one,
  so when the last installment is itself the first unpaid one it is marked and then deleted.
  Loan 1 of \<open>last_unpaid_db\<close> has installments 10 (repaid) and 11 (unpaid, the last): the
  engine completes, installment 11 is gone and no remaining installment is marked.
\<close>

theorem marked_installment_is_deleted:
  "fst (handle_early_settlement None example_today (open_conn last_unpaid_db) 1) = Inr Completed
   \<and> select_first_unpaid last_unpaid_db 1 = Some 11
   \<and> map inst_id (loan_repayment_schedules (committed (snd
         (handle_early_settlement None example_today (open_conn last_unpaid_db) 1)))) = [10]
   \<and> filter inst_is_early_repayment (loan_repayment_schedules (committed (snd
         (handle_early_settlement None example_today (open_conn last_unpaid_db) 1)))) = []"
  by code_simp




text \<open>
  C8 (first payment date). The claim: for every loans row with a disbursed date the first
  payment date is that date one calendar month later, the day clamped to the last day of the
  target month, December rolling into January of the next year. A date in December 9999 has
  no next month in Python's calendar: \<open>replace\<close> raises, the fallback raises again, and the
  row fails instead of getting a first payment date.
\<close>

theorem first_payment_date_counterexample:
  "valid_date \<lparr>year = 9999, month = 12, day = 15\<rparr>
   \<and> set_first_payment_date disbursed_in_last_month = Inl ValueError"
  by code_simp

text \<open>
  C8, amended. For every loans row whose disbursed date is a date or datetime before
  December 9999, the transformer returns the row with \<open>first_payment_date\<close> set to the
  disbursed date one calendar month later, the day clamped to the last valid day of the
  target month (2024-01-31 gives 2024-02-29, 2023-01-31 gives 2023-02-28, 2024-03-15 gives
  2024-04-15, December gives January of the next year); when the row has no disbursed date
  (no such key, or NULL) the row is returned as it is.
\<close>

theorem first_payment_date_one_month_later:
  "(map_of row_data ''disbursed_on_date'' = Some v \<and> (v = PDate d \<or> v = PDateTime d s)
      \<and> valid_date d \<and> \<not> (year d = 9999 \<and> month d = 12)
    \<longrightarrow> (\<exists>w. set_first_payment_date row_data = Inr (dict_set row_data ''first_payment_date'' w)
            \<and> date_of w = Some (add_month_clamped d)))
   \<and> (map_of row_data ''disbursed_on_date'' = None
        \<or> map_of row_data ''disbursed_on_date'' = Some PNone
      \<longrightarrow> set_first_payment_date row_data = Inr row_data)
   \<and> add_month_clamped \<lparr>year = 2024, month = 1, day = 31\<rparr> = \<lparr>year = 2024, month = 2, day = 29\<rparr>
   \<and> add_month_clamped \<lparr>year = 2023, month = 1, day = 31\<rparr> = \<lparr>year = 2023, month = 2, day = 28\<rparr>
   \<and> add_month_clamped \<lparr>year = 2024, month = 3, day = 15\<rparr> = \<lparr>year = 2024, month = 4, day = 15\<rparr>
   \<and> add_month_clamped \<lparr>year = 2024, month = 12, day = 31\<rparr> = \<lparr>year = 2025, month = 1, day = 31\<rparr>"
proof -
  have e: "add_month_clamped \<lparr>year = 2024, month = 1, day = 31\<rparr> = \<lparr>year = 2024, month = 2, day = 29\<rparr>"
    "add_month_clamped \<lparr>year = 2023, month = 1, day = 31\<rparr> = \<lparr>year = 2023, month = 2, day = 28\<rparr>"
    "add_month_clamped \<lparr>year = 2024, month = 3, day = 15\<rparr> = \<lparr>year = 2024, month = 4, day = 15\<rparr>"
    "add_month_clamped \<lparr>year = 2024, month = 12, day = 31\<rparr> = \<lparr>year = 2025, month = 1, day = 31\<rparr>"
    by (simp_all add: add_month_clamped_def days_in_month_def is_leap_def)
  show ?thesis
    using first_payment_date_advanced [of row_data v d s] no_disbursed_date_keeps_row [of row_data] e
    by blast
qed

theorem first_payment_date_one_month_later_witness:
  "map_of example_disbursed ''disbursed_on_date'' = Some (PDate \<lparr>year = 2024, month = 1, day = 31\<rparr>)
   \<and> valid_date \<lparr>year = 2024, month = 1, day = 31\<rparr>
   \<and> (\<exists>w. set_first_payment_date example_disbursed
              = Inr (dict_set example_disbursed ''first_payment_date'' w)
          \<and> date_of w = Some \<lparr>year = 2024, month = 2, day = 29\<rparr>)"
proof -
  have h1: "map_of example_disbursed ''disbursed_on_date''
      = Some (PDate \<lparr>year = 2024, month = 1, day = 31\<rparr>)"
    by (simp add: example_disbursed_def)
  have h2: "valid_date \<lparr>year = 2024, month = 1, day = 31\<rparr>"
    by (simp add: valid_date_def days_in_month_def)
  have h3: "\<not> (year \<lparr>year = 2024, month = 1, day = 31\<rparr> = 9999
      \<and> month \<lparr>year = 2024, month = 1, day = 31\<rparr> = 12)"
    by simp
  from first_payment_date_one_month_later
    [of example_disbursed "PDate \<lparr>year = 2024, month = 1, day = 31\<rparr>"
        "\<lparr>year = 2024, month = 1, day = 31\<rparr>" 0]
  have "\<exists>w. set_first_payment_date example_disbursed
              = Inr (dict_set example_disbursed ''first_payment_date'' w)
          \<and> date_of w = Some \<lparr>year = 2024, month = 2, day = 29\<rparr>"
    using h1 h2 h3 by auto
  then show ?thesis using h1 h2 by blast
qed

text \<open>
  C6 (sign of a cancellation). Whenever the transformer returns a row for a transactions
  record whose source type code is a cancellation variant (2, 4, 8 or 18): the final amount,
  interest\_repaid\_derived and penalties\_repaid\_derived are all at most 0, whatever the signs
  of the source values, and principal\_repaid\_derived is the final amount minus the final
  interest\_repaid\_derived.
\<close>

theorem cancellation_amounts_non_positive:
  assumes res: "process_transactions accepts lookup now row_data source_row st = (Inr row', st')"
    and code: "py_int (dict_get source_row ''trans_act'') = Inr code"
    and canc: "code \<in> cancellation_types"
  shows "\<exists>amount interest penalties.
       py_float (dict_get row' ''amount'') = Inr amount \<and> amount \<le> 0
     \<and> py_float (dict_get row' ''interest_repaid_derived'') = Inr interest \<and> interest \<le> 0
     \<and> py_float (dict_get row' ''penalties_repaid_derived'') = Inr penalties \<and> penalties \<le> 0
     \<and> map_of row' ''principal_repaid_derived'' = Some (PFloat (amount - interest))"
proof -
  have ne: "source_row \<noteq> []"
    using code by (auto simp: dict_get_def py_int_def)
  have conv: "convert_trans_type (dict_get source_row ''trans_act'') = Inr (Some code)"
    using code by (auto simp: convert_trans_type_def py_int_def)
  from map_of_trans_type_mapping [OF canc] obtain t where
    t: "map_of trans_type_mapping code = Some t" by blast
  from res ne conv obtain r5 r6 st1 where
    sp: "split_amount r5 = Inr r6"
    and fin: "finish_transaction (Some code) r6 st1 = (Inr row', st')"
    unfolding process_transactions_def Let_def
    by (auto split: prod.splits sum.splits elim!: and_then_InrE)
  from split_amount_Inr [OF sp] obtain a x i y p where
    r6: "map_of r6 ''amount'' = Some (PFloat a)"
      "map_of r6 ''interest_repaid_derived'' = Some x" "py_float x = Inr i"
      "map_of r6 ''penalties_repaid_derived'' = Some y" "py_float y = Inr p"
    by blast
  have fa: "py_float (PFloat a) = Inr a" by (simp add: py_float_def)
  from cancellation_flip_Inr [OF r6(1) fa r6(2,3) r6(4,5)] obtain r7 xa' xi' xp' where
    r7: "cancellation_flip r6 = Inr r7"
      "map_of r7 ''amount'' = Some xa'" "py_float xa' = Inr (neg a)"
      "map_of r7 ''interest_repaid_derived'' = Some xi'" "py_float xi' = Inr (neg i)"
      "map_of r7 ''penalties_repaid_derived'' = Some xp'" "py_float xp' = Inr (neg p)"
      "map_of r7 ''principal_repaid_derived'' = Some (PFloat (neg a - neg i))"
    by blast
  from fin t canc r7(1) have s: "set_type_and_sides t r7 = Inr row'"
    by (simp add: finish_transaction_def)
  have "map_of row' ''amount'' = Some xa'"
    and "map_of row' ''interest_repaid_derived'' = Some xi'"
    and "map_of row' ''penalties_repaid_derived'' = Some xp'"
    and "map_of row' ''principal_repaid_derived'' = Some (PFloat (neg a - neg i))"
    using set_type_and_sides_Inr [OF s] r7 by simp_all
  then show ?thesis
    using r7(3,5,7) neg_le_0 by (auto simp: dict_get_def)
qed

theorem cancellation_amounts_non_positive_witness:
  "py_int (dict_get (snd cancellation_rows) ''trans_act'') = Inr 2
   \<and> (2::int) \<in> cancellation_types
   \<and> (\<exists>row' st'. process_transactions accept_all example_lookup example_now
          (fst cancellation_rows) (snd cancellation_rows) new_migration = (Inr row', st')
        \<and> py_float (dict_get row' ''amount'') = Inr (- 105)
        \<and> py_float (dict_get row' ''interest_repaid_derived'') = Inr (- 10)
        \<and> py_float (dict_get row' ''penalties_repaid_derived'') = Inr (- 5)
        \<and> map_of row' ''principal_repaid_derived'' = Some (PFloat (- 95)))"
proof -
  have h2: "py_int (dict_get (snd cancellation_rows) ''trans_act'') = Inr 2"
    by (simp add: tx_eval)
  have h3: "(2::int) \<in> cancellation_types"
    by (simp add: cancellation_types_def)
  have "\<exists>row' st'. process_transactions accept_all example_lookup example_now
          (fst cancellation_rows) (snd cancellation_rows) new_migration = (Inr row', st')
        \<and> py_float (dict_get row' ''amount'') = Inr (- 105)
        \<and> py_float (dict_get row' ''interest_repaid_derived'') = Inr (- 10)
        \<and> py_float (dict_get row' ''penalties_repaid_derived'') = Inr (- 5)"
    by (simp add: tx_eval)
  then obtain row' st' where
    h1: "process_transactions accept_all example_lookup example_now
          (fst cancellation_rows) (snd cancellation_rows) new_migration = (Inr row', st')"
    and v: "py_float (dict_get row' ''amount'') = Inr (- 105)"
      "py_float (dict_get row' ''interest_repaid_derived'') = Inr (- 10)"
      "py_float (dict_get row' ''penalties_repaid_derived'') = Inr (- 5)"
    by blast
  from cancellation_amounts_non_positive [OF h1 h2 h3] v
  have "map_of row' ''principal_repaid_derived'' = Some (PFloat (- 95))"
    by auto
  then show ?thesis using h1 h2 h3 v by blast
qed

text \<open>
  C2 (unmapped transaction type). The claim: a source transaction whose type code has no
  entry in the remap table (such as 99) inserts no row into the target table, adds 1 to the
  skip counter and is dropped rather than failing as an error. The transformer does count the
  skip, and marks the row with the key \<open>_skip_this_row\<close>; the driver only tests whether the
  row is \<open>None\<close>, which it never is, and goes on to insert the row with that key as a column.
  On a target table without such a column the INSERT raises and the record is counted as a
  failed insert; on a target that takes the column the row is inserted. When the record
  carries penalties and its loan is known, the separate penalty transaction (type 12) has
  been inserted before the skip.
\<close>

theorem unmapped_record_is_not_dropped:
  "migrate_transactions known_columns example_lookup example_now example_mapping new_migration
       [unmapped_record]
     = \<lparr>target_rows = [],
        logic = \<lparr>skipped_transactions = 1, inserted_transactions = 0,
                  skipped_types_count = [(Some 99, 1)]\<rparr>,
        successful_inserts = 0, failed_inserts = 1\<rparr>
   \<and> successful_inserts (migrate_transactions accept_all example_lookup example_now
         example_mapping new_migration [unmapped_record]) = 1
   \<and> map (\<lambda>r. dict_get r ''_skip_this_row'')
         (target_rows (migrate_transactions accept_all example_lookup example_now
            example_mapping new_migration [unmapped_record])) = [PBool True]
   \<and> map (\<lambda>r. dict_get r ''loan_transaction_type_id'')
         (target_rows (migrate_transactions known_columns example_lookup example_now
            example_mapping new_migration [unmapped_record_with_penalty])) = [PInt 12]"
  by (simp add: drv_eval tx_eval)

text \<open>
  C10 (client coordinates). The default coordinates (0, 0) are set exactly when the source
  row's home geography is absent (NULL or empty). When it is present the coordinates are the
  decoded ones, and when the decoder returns null the unpacking of its result raises
  TypeError. The decoder returns null for text without the header prefix, for text shorter
  than 76 characters, for text that is no hex string, and for binary data shorter than 22
  bytes. In the driver such a record is counted as a failed insert and no row is inserted.
\<close>

theorem geography_default_only_when_absent:
  "(\<not> truthy (dict_get source_row ''home_geography'') \<longrightarrow>
      clients_geography source_row row_data = Inr (set_coordinates (PFloat 0) (PFloat 0) row_data))
   \<and> (truthy (dict_get source_row ''home_geography'') \<longrightarrow>
      clients_geography source_row row_data
        = (case extract_lat_lon_from_wkb (dict_get source_row ''home_geography'') of
             None \<Rightarrow> Inl TypeError
           | Some (lat, lon) \<Rightarrow> Inr (set_coordinates (PDouble lat) (PDouble lon) row_data)))
   \<and> (take (length specific_prefix) (strip_0x s) \<noteq> specific_prefix \<longrightarrow>
        extract_lat_lon_from_wkb (PStr s) = None)
   \<and> (length (strip_0x s) < 76 \<longrightarrow> extract_lat_lon_from_wkb (PStr s) = None)
   \<and> (unhexlify (strip_0x s) = None \<longrightarrow> extract_lat_lon_from_wkb (PStr s) = None)
   \<and> (length bs < 22 \<longrightarrow> extract_lat_lon_from_wkb (PBytes bs) = None)
   \<and> (truthy (dict_get (snd (build_rows mapping record)) ''home_geography'')
        \<and> extract_lat_lon_from_wkb (dict_get (snd (build_rows mapping record)) ''home_geography'') = None
      \<longrightarrow> migrate_record accepts (clients_transformer before after) mapping st record
            = st\<lparr>failed_inserts := failed_inserts st + 1\<rparr>)"
proof -
  have drv: "migrate_record accepts (clients_transformer before after) mapping st record
            = st\<lparr>failed_inserts := failed_inserts st + 1\<rparr>"
    if "truthy (dict_get (snd (build_rows mapping record)) ''home_geography'')"
      and "extract_lat_lon_from_wkb (dict_get (snd (build_rows mapping record)) ''home_geography'') = None"
  proof -
    obtain p sr where b: "build_rows mapping record = (p, sr)" by (cases "build_rows mapping record")
    from that b clients_transformer_fails [of sr before after p st]
    obtain e where "clients_transformer before after p sr st = (Inl e, st)" by auto
    then show ?thesis using b by (simp add: migrate_record_def)
  qed
  show ?thesis
    using drv by (simp add: clients_geography_def extract_failures)
qed

theorem geography_default_only_when_absent_witness:
  "truthy (dict_get [(''home_geography'', PStr bad_prefix_wkb)] ''home_geography'')
   \<and> take (length specific_prefix) (strip_0x bad_prefix_wkb) \<noteq> specific_prefix
   \<and> clients_geography [(''home_geography'', PStr bad_prefix_wkb)] [(''name'', PStr ''A'')]
       = Inl TypeError
   \<and> \<not> truthy (dict_get [(''home_geography'', PNone)] ''home_geography'')
   \<and> clients_geography [(''home_geography'', PNone)] [(''name'', PStr ''A'')]
       = Inr (set_coordinates (PFloat 0) (PFloat 0) [(''name'', PStr ''A'')])"
proof -
  have t: "truthy (dict_get [(''home_geography'', PStr bad_prefix_wkb)] ''home_geography'')"
    by (simp add: dict_get_def truthy_def bad_prefix_wkb_def)
  have p: "take (length specific_prefix) (strip_0x bad_prefix_wkb) \<noteq> specific_prefix"
    by (simp add: bad_prefix_wkb_def strip_0x_def specific_prefix_def)
  have n: "\<not> truthy (dict_get [(''home_geography'', PNone)] ''home_geography'')"
    by (simp add: dict_get_def truthy_def)
  have g: "dict_get [(''home_geography'', PStr bad_prefix_wkb)] ''home_geography'' = PStr bad_prefix_wkb"
    by (simp add: dict_get_def)
  from geography_default_only_when_absent
    [of "[(''home_geography'', PStr bad_prefix_wkb)]" "[(''name'', PStr ''A'')]" bad_prefix_wkb]
  have "clients_geography [(''home_geography'', PStr bad_prefix_wkb)] [(''name'', PStr ''A'')]
       = Inl TypeError"
    using t p g by simp
  moreover from geography_default_only_when_absent
    [of "[(''home_geography'', PNone)]" "[(''name'', PStr ''A'')]"]
  have "clients_geography [(''home_geography'', PNone)] [(''name'', PStr ''A'')]
       = Inr (set_coordinates (PFloat 0) (PFloat 0) [(''name'', PStr ''A'')])"
    using n by simp
  ultimately show ?thesis using t p n by blast
qed

end
